theory Spec2Isabelle
  imports Complex_Main
begin

section \<open>Values, geometries and materials\<close>

text \<open>
  The engine (\<^verbatim>\<open>ThreeEngine\<close>) owns at most one procedural plane out of four classes and
  switches between them on a string tag. The model follows the TypeScript source:
  objects live in a heap indexed by their identity, the engine's four fields hold
  references into it, constructors that may throw take their outcome as an argument,
  and DOM event listeners are entries of explicit registries.

  JavaScript numbers are modelled as \<^typ>\<open>real\<close>: the functions below only store, copy
  and compare the literals of the source, they do no arithmetic on them (the one
  division, the camera aspect, is modelled with its zero-divisor cases).
\<close>

type_synonym oid = nat

datatype jsval = Num real | Vec2 real real

datatype jsnum = Finite real | PosInfinity | NegInfinity | NaN

definition js_div :: "real \<Rightarrow> real \<Rightarrow> jsnum" where
  "js_div a b =
     (if b \<noteq> 0 then Finite (a / b)
      else if 0 < a then PosInfinity
      else if a < 0 then NegInfinity
      else NaN)"

record PlaneGeometry =
  width :: real
  height :: real
  widthSegments :: nat
  heightSegments :: nat
  geometry_disposed :: bool

text \<open>
  A material is either a node material (no \<^verbatim>\<open>uniforms\<close> property: \<open>None\<close>) or a
  \<^verbatim>\<open>THREE.ShaderMaterial\<close> with its table of named uniforms.
\<close>

record Material =
  uniforms :: "(string \<times> jsval) list option"
  material_disposed :: bool

definition PlaneGeometry_new :: "real \<Rightarrow> real \<Rightarrow> nat \<Rightarrow> nat \<Rightarrow> PlaneGeometry" where
  "PlaneGeometry_new w h ws hs =
     \<lparr>width = w, height = h, widthSegments = ws, heightSegments = hs,
      geometry_disposed = False\<rparr>"

definition MeshPhysicalNodeMaterial_new :: Material where
  "MeshPhysicalNodeMaterial_new = \<lparr>uniforms = None, material_disposed = False\<rparr>"

definition ShaderMaterial_new :: "(string \<times> jsval) list \<Rightarrow> Material" where
  "ShaderMaterial_new us = \<lparr>uniforms = Some us, material_disposed = False\<rparr>"

definition geometry_dispose :: "PlaneGeometry \<Rightarrow> PlaneGeometry" where
  "geometry_dispose g = g\<lparr>geometry_disposed := True\<rparr>"

definition material_dispose :: "Material \<Rightarrow> Material" where
  "material_dispose m = m\<lparr>material_disposed := True\<rparr>"

text \<open>
  \<^verbatim>\<open>(material as ShaderMaterial).uniforms?.uName?.value ?? d\<close>: the default \<open>d\<close> when the
  material has no uniform table or the table has no such entry.
\<close>

definition shader_uniform_get :: "string \<Rightarrow> jsval \<Rightarrow> Material \<Rightarrow> jsval" where
  "shader_uniform_get n d m =
     (case uniforms m of
        None \<Rightarrow> d
      | Some us \<Rightarrow> (case map_of us n of None \<Rightarrow> d | Some v \<Rightarrow> v))"

text \<open>
  \<^verbatim>\<open>else if (material.uniforms?.uName) material.uniforms.uName.value = v\<close>: a write that
  happens only when the entry exists.
\<close>

definition shader_uniform_set :: "string \<Rightarrow> jsval \<Rightarrow> Material \<Rightarrow> Material" where
  "shader_uniform_set n v m =
     (case uniforms m of
        None \<Rightarrow> m
      | Some us \<Rightarrow>
          (case map_of us n of
             None \<Rightarrow> m
           | Some _ \<Rightarrow>
               m\<lparr>uniforms := Some (map (\<lambda>(k, x). if k = n then (k, v) else (k, x)) us)\<rparr>))"

text \<open>
  Optional constructor parameters (\<^verbatim>\<open>width?: number\<close> and so on); every class
  destructures them with its own defaults. The position is the origin at every call site
  and is left out.
\<close>

record PlaneParams =
  p_width :: "real option"
  p_height :: "real option"
  p_widthSegments :: "nat option"
  p_heightSegments :: "nat option"

definition dflt :: "'a \<Rightarrow> 'a option \<Rightarrow> 'a" where
  "dflt d x = (case x of None \<Rightarrow> d | Some v \<Rightarrow> v)"

text \<open>
  Every \<^verbatim>\<open>initMaterial\<close> runs its TSL code inside \<^verbatim>\<open>try\<close> and substitutes a hand-written
  shader material in \<^verbatim>\<open>catch\<close>. The outcome of the \<^verbatim>\<open>try\<close> block is an input of the model:
  it runs to its end, or it throws after \<open>n\<close> of its leading uniform assignments
  (\<^verbatim>\<open>this.xUniform = TSL.uniform(...)\<close>) were executed. A constructor as a whole either
  throws (nothing is retained) or builds the object.
\<close>

datatype tsl_outcome = TslOk | TslThrowsAfter nat

datatype ctor_outcome = CtorThrows | Built tsl_outcome

definition assigned :: "nat \<Rightarrow> tsl_outcome \<Rightarrow> bool" where
  "assigned k out = (case out of TslOk \<Rightarrow> True | TslThrowsAfter n \<Rightarrow> k < n)"

definition tsl_uniform :: "nat \<Rightarrow> tsl_outcome \<Rightarrow> jsval \<Rightarrow> jsval option" where
  "tsl_uniform k out v = (if assigned k out then Some v else None)"

text \<open>
  The getter pattern shared by every uniform accessor of the plane classes: the TSL
  uniform node when the field was assigned, the fallback material's table otherwise.
\<close>

definition uniform_get :: "jsval option \<Rightarrow> string \<Rightarrow> jsval \<Rightarrow> Material \<Rightarrow> jsval" where
  "uniform_get node n d m = (case node of Some v \<Rightarrow> v | None \<Rightarrow> shader_uniform_get n d m)"

section \<open>TSLPlaneSDF\<close>

record TSLPlaneSDF =
  sdf_geometry :: PlaneGeometry
  sdf_material :: Material
  sdf_radiusUniform :: "jsval option"
  sdf_fadeUniform :: "jsval option"

definition sdf_createFallbackMaterial :: Material where
  "sdf_createFallbackMaterial =
     ShaderMaterial_new [(''uTime'', Num 0), (''uRadius'', Num 0.25), (''uFade'', Num 1.5)]"

definition TSLPlaneSDF_new :: "PlaneParams \<Rightarrow> tsl_outcome \<Rightarrow> TSLPlaneSDF" where
  "TSLPlaneSDF_new params out =
     \<lparr>sdf_geometry =
        PlaneGeometry_new (dflt 4 (p_width params)) (dflt 2 (p_height params))
          (dflt 64 (p_widthSegments params)) (dflt 32 (p_heightSegments params)),
      sdf_material =
        (case out of TslOk \<Rightarrow> MeshPhysicalNodeMaterial_new
         | TslThrowsAfter _ \<Rightarrow> sdf_createFallbackMaterial),
      sdf_radiusUniform = tsl_uniform 0 out (Num 0.25),
      sdf_fadeUniform = tsl_uniform 1 out (Num 1.5)\<rparr>"

definition sdf_radius :: "TSLPlaneSDF \<Rightarrow> jsval" where
  "sdf_radius p = uniform_get (sdf_radiusUniform p) ''uRadius'' (Num 0.25) (sdf_material p)"

definition sdf_set_radius :: "jsval \<Rightarrow> TSLPlaneSDF \<Rightarrow> TSLPlaneSDF" where
  "sdf_set_radius v p =
     (case sdf_radiusUniform p of
        Some _ \<Rightarrow> p\<lparr>sdf_radiusUniform := Some v\<rparr>
      | None \<Rightarrow> p\<lparr>sdf_material := shader_uniform_set ''uRadius'' v (sdf_material p)\<rparr>)"

definition sdf_fade :: "TSLPlaneSDF \<Rightarrow> jsval" where
  "sdf_fade p = uniform_get (sdf_fadeUniform p) ''uFade'' (Num 1.5) (sdf_material p)"

definition sdf_set_fade :: "jsval \<Rightarrow> TSLPlaneSDF \<Rightarrow> TSLPlaneSDF" where
  "sdf_set_fade v p =
     (case sdf_fadeUniform p of
        Some _ \<Rightarrow> p\<lparr>sdf_fadeUniform := Some v\<rparr>
      | None \<Rightarrow> p\<lparr>sdf_material := shader_uniform_set ''uFade'' v (sdf_material p)\<rparr>)"

definition sdf_dispose :: "TSLPlaneSDF \<Rightarrow> TSLPlaneSDF" where
  "sdf_dispose p =
     p\<lparr>sdf_geometry := geometry_dispose (sdf_geometry p),
       sdf_material := material_dispose (sdf_material p)\<rparr>"

section \<open>TSLPlaneRaymarching\<close>

text \<open>
  The private \<^verbatim>\<open>raycaster\<close> and \<^verbatim>\<open>pointer\<close> scratch fields only feed the ray cast, whose
  result is an input of the pointer-move event below. \<open>ray_camera\<close> records whether
  \<^verbatim>\<open>this.camera\<close> was assigned.
\<close>

record TSLPlaneRaymarching =
  ray_geometry :: PlaneGeometry
  ray_material :: Material
  ray_radiusUniform :: "jsval option"
  ray_fadeUniform :: "jsval option"
  ray_rayFromUniform :: "jsval option"
  ray_rayToUniform :: "jsval option"
  ray_maxStepsUniform :: "jsval option"
  ray_surfaceDistanceUniform :: "jsval option"
  ray_maxDistanceUniform :: "jsval option"
  ray_timeMultiplierUniform :: "jsval option"
  ray_camera :: bool

definition ray_createFallbackMaterial :: Material where
  "ray_createFallbackMaterial =
     ShaderMaterial_new
       [(''uTime'', Num 0), (''uRadius'', Num 0.15), (''uFade'', Num 1),
        (''uRayFrom'', Vec2 0.5 0.5), (''uRayTo'', Vec2 1 1), (''uMaxSteps'', Num 20),
        (''uSurfaceDistance'', Num 0.0001), (''uMaxDistance'', Num 5),
        (''uTimeMultiplier'', Num 1)]"

definition TSLPlaneRaymarching_new :: "PlaneParams \<Rightarrow> tsl_outcome \<Rightarrow> TSLPlaneRaymarching" where
  "TSLPlaneRaymarching_new params out =
     \<lparr>ray_geometry =
        PlaneGeometry_new (dflt 2 (p_width params)) (dflt 2 (p_height params))
          (dflt 64 (p_widthSegments params)) (dflt 64 (p_heightSegments params)),
      ray_material =
        (case out of TslOk \<Rightarrow> MeshPhysicalNodeMaterial_new
         | TslThrowsAfter _ \<Rightarrow> ray_createFallbackMaterial),
      ray_radiusUniform = tsl_uniform 0 out (Num 0.15),
      ray_fadeUniform = tsl_uniform 1 out (Num 1),
      ray_rayFromUniform = tsl_uniform 2 out (Vec2 0.5 0.5),
      ray_rayToUniform = tsl_uniform 3 out (Vec2 1 1),
      ray_maxStepsUniform = tsl_uniform 4 out (Num 20),
      ray_surfaceDistanceUniform = tsl_uniform 5 out (Num 0.0001),
      ray_maxDistanceUniform = tsl_uniform 6 out (Num 5),
      ray_timeMultiplierUniform = tsl_uniform 7 out (Num 1),
      ray_camera = False\<rparr>"

definition ray_radius :: "TSLPlaneRaymarching \<Rightarrow> jsval" where
  "ray_radius p = uniform_get (ray_radiusUniform p) ''uRadius'' (Num 0.15) (ray_material p)"

definition ray_set_radius :: "jsval \<Rightarrow> TSLPlaneRaymarching \<Rightarrow> TSLPlaneRaymarching" where
  "ray_set_radius v p =
     (case ray_radiusUniform p of
        Some _ \<Rightarrow> p\<lparr>ray_radiusUniform := Some v\<rparr>
      | None \<Rightarrow> p\<lparr>ray_material := shader_uniform_set ''uRadius'' v (ray_material p)\<rparr>)"

definition ray_maxSteps :: "TSLPlaneRaymarching \<Rightarrow> jsval" where
  "ray_maxSteps p =
     uniform_get (ray_maxStepsUniform p) ''uMaxSteps'' (Num 20) (ray_material p)"

definition ray_set_maxSteps :: "jsval \<Rightarrow> TSLPlaneRaymarching \<Rightarrow> TSLPlaneRaymarching" where
  "ray_set_maxSteps v p =
     (case ray_maxStepsUniform p of
        Some _ \<Rightarrow> p\<lparr>ray_maxStepsUniform := Some v\<rparr>
      | None \<Rightarrow> p\<lparr>ray_material := shader_uniform_set ''uMaxSteps'' v (ray_material p)\<rparr>)"

definition ray_surfaceDistance :: "TSLPlaneRaymarching \<Rightarrow> jsval" where
  "ray_surfaceDistance p =
     uniform_get (ray_surfaceDistanceUniform p) ''uSurfaceDistance'' (Num 0.0001)
       (ray_material p)"

definition ray_set_surfaceDistance :: "jsval \<Rightarrow> TSLPlaneRaymarching \<Rightarrow> TSLPlaneRaymarching" where
  "ray_set_surfaceDistance v p =
     (case ray_surfaceDistanceUniform p of
        Some _ \<Rightarrow> p\<lparr>ray_surfaceDistanceUniform := Some v\<rparr>
      | None \<Rightarrow>
          p\<lparr>ray_material := shader_uniform_set ''uSurfaceDistance'' v (ray_material p)\<rparr>)"

definition ray_timeMultiplier :: "TSLPlaneRaymarching \<Rightarrow> jsval" where
  "ray_timeMultiplier p =
     uniform_get (ray_timeMultiplierUniform p) ''uTimeMultiplier'' (Num 1) (ray_material p)"

definition ray_set_timeMultiplier :: "jsval \<Rightarrow> TSLPlaneRaymarching \<Rightarrow> TSLPlaneRaymarching" where
  "ray_set_timeMultiplier v p =
     (case ray_timeMultiplierUniform p of
        Some _ \<Rightarrow> p\<lparr>ray_timeMultiplierUniform := Some v\<rparr>
      | None \<Rightarrow>
          p\<lparr>ray_material := shader_uniform_set ''uTimeMultiplier'' v (ray_material p)\<rparr>)"

definition ray_rayFrom :: "TSLPlaneRaymarching \<Rightarrow> jsval" where
  "ray_rayFrom p =
     uniform_get (ray_rayFromUniform p) ''uRayFrom'' (Vec2 0.5 0.5) (ray_material p)"

text \<open>The two vector setters copy the argument into the stored vector.\<close>

definition ray_set_rayFrom :: "jsval \<Rightarrow> TSLPlaneRaymarching \<Rightarrow> TSLPlaneRaymarching" where
  "ray_set_rayFrom v p =
     (case ray_rayFromUniform p of
        Some _ \<Rightarrow> p\<lparr>ray_rayFromUniform := Some v\<rparr>
      | None \<Rightarrow> p\<lparr>ray_material := shader_uniform_set ''uRayFrom'' v (ray_material p)\<rparr>)"

definition ray_rayTo :: "TSLPlaneRaymarching \<Rightarrow> jsval" where
  "ray_rayTo p = uniform_get (ray_rayToUniform p) ''uRayTo'' (Vec2 1 1) (ray_material p)"

definition ray_set_rayTo :: "jsval \<Rightarrow> TSLPlaneRaymarching \<Rightarrow> TSLPlaneRaymarching" where
  "ray_set_rayTo v p =
     (case ray_rayToUniform p of
        Some _ \<Rightarrow> p\<lparr>ray_rayToUniform := Some v\<rparr>
      | None \<Rightarrow> p\<lparr>ray_material := shader_uniform_set ''uRayTo'' v (ray_material p)\<rparr>)"

text \<open>\<^verbatim>\<open>dispose\<close> releases the geometry and the material, and nothing else.\<close>

definition ray_dispose :: "TSLPlaneRaymarching \<Rightarrow> TSLPlaneRaymarching" where
  "ray_dispose p =
     p\<lparr>ray_geometry := geometry_dispose (ray_geometry p),
       ray_material := material_dispose (ray_material p)\<rparr>"

section \<open>TSLPlaneDesertTank\<close>

record TSLPlaneDesertTank =
  tank_geometry :: PlaneGeometry
  tank_material :: Material
  tank_wheelOffsetUniform :: "jsval option"
  tank_bulletOffsetUniform :: "jsval option"
  tank_shellOffsetUniform :: "jsval option"
  tank_canJump :: bool
  tank_canShoot :: bool
  tank_keyMap :: "string \<Rightarrow> bool option"

definition tank_createFallbackMaterial :: Material where
  "tank_createFallbackMaterial =
     ShaderMaterial_new
       [(''uTime'', Num 0), (''uWheelOffset'', Vec2 (- 10) 0), (''uBulletOffset'', Num 20),
        (''uShellOffset'', Num 25)]"

definition TSLPlaneDesertTank_new :: "PlaneParams \<Rightarrow> tsl_outcome \<Rightarrow> TSLPlaneDesertTank" where
  "TSLPlaneDesertTank_new params out =
     \<lparr>tank_geometry =
        PlaneGeometry_new (dflt 2 (p_width params)) (dflt 2 (p_height params))
          (dflt 64 (p_widthSegments params)) (dflt 64 (p_heightSegments params)),
      tank_material =
        (case out of TslOk \<Rightarrow> MeshPhysicalNodeMaterial_new
         | TslThrowsAfter _ \<Rightarrow> tank_createFallbackMaterial),
      tank_wheelOffsetUniform = tsl_uniform 0 out (Vec2 (- 10) 0),
      tank_bulletOffsetUniform = tsl_uniform 1 out (Num 20),
      tank_shellOffsetUniform = tsl_uniform 2 out (Num 25),
      tank_canJump = True,
      tank_canShoot = True,
      tank_keyMap = (\<lambda>_. None)\<rparr>"

definition tank_wheelOffset :: "TSLPlaneDesertTank \<Rightarrow> jsval" where
  "tank_wheelOffset p =
     uniform_get (tank_wheelOffsetUniform p) ''uWheelOffset'' (Vec2 (- 10) 0) (tank_material p)"

definition tank_bulletOffset :: "TSLPlaneDesertTank \<Rightarrow> jsval" where
  "tank_bulletOffset p =
     uniform_get (tank_bulletOffsetUniform p) ''uBulletOffset'' (Num 20) (tank_material p)"

definition tank_shellOffset :: "TSLPlaneDesertTank \<Rightarrow> jsval" where
  "tank_shellOffset p =
     uniform_get (tank_shellOffsetUniform p) ''uShellOffset'' (Num 25) (tank_material p)"

text \<open>
  Every uniform the plane owns, under the name of its field or of its shader-table entry:
  the TSL uniform nodes that were created and the table of the fallback material.
\<close>

definition tank_uniforms :: "TSLPlaneDesertTank \<Rightarrow> (string \<times> jsval) list" where
  "tank_uniforms p =
     (case tank_wheelOffsetUniform p of None \<Rightarrow> [] | Some v \<Rightarrow> [(''wheelOffsetUniform'', v)]) @
     (case tank_bulletOffsetUniform p of None \<Rightarrow> [] | Some v \<Rightarrow> [(''bulletOffsetUniform'', v)]) @
     (case tank_shellOffsetUniform p of None \<Rightarrow> [] | Some v \<Rightarrow> [(''shellOffsetUniform'', v)]) @
     (case uniforms (tank_material p) of None \<Rightarrow> [] | Some us \<Rightarrow> us)"

text \<open>
  The part of \<^verbatim>\<open>dispose\<close> that acts on the object; its two \<^verbatim>\<open>removeEventListener\<close> calls
  act on the document's registry and are part of \<open>dispose_at\<close> below.
\<close>

definition tank_dispose :: "TSLPlaneDesertTank \<Rightarrow> TSLPlaneDesertTank" where
  "tank_dispose p =
     p\<lparr>tank_geometry := geometry_dispose (tank_geometry p),
       tank_material := material_dispose (tank_material p)\<rparr>"

section \<open>TSLPlane (the wave plane)\<close>

text \<open>
  Modelled from the spec: the class \<^verbatim>\<open>TSLPlane\<close> (imported from \<^verbatim>\<open>./TSLPlane\<close>) is not among
  the source files. The spec gives the wave variant a tessellated rectangle created with
  its scene program and destroyed with it, and a teardown that releases the GPU-side
  buffers and program of the scene; the engine passes all four dimensions.
\<close>

record TSLPlane =
  wave_geometry :: PlaneGeometry
  wave_material :: Material

text \<open>
  Modelled from the spec: the constructor of the absent class \<^verbatim>\<open>TSLPlane\<close>. The wave
  variant's mesh geometry has the four dimensions it is given, created alongside its
  scene program.
\<close>

definition TSLPlane_new :: "real \<Rightarrow> real \<Rightarrow> nat \<Rightarrow> nat \<Rightarrow> TSLPlane" where
  "TSLPlane_new w h ws hs =
     \<lparr>wave_geometry = PlaneGeometry_new w h ws hs,
      wave_material = MeshPhysicalNodeMaterial_new\<rparr>"

text \<open>
  Modelled from the spec: \<^verbatim>\<open>TSLPlane.dispose\<close>, absent with its class. Teardown releases the
  GPU-side buffers and the program owned by the scene program.
\<close>

definition wave_dispose :: "TSLPlane \<Rightarrow> TSLPlane" where
  "wave_dispose p =
     p\<lparr>wave_geometry := geometry_dispose (wave_geometry p),
       wave_material := material_dispose (wave_material p)\<rparr>"

section \<open>Objects, listeners and the engine state\<close>

datatype obj =
    WaveObj TSLPlane
  | SdfObj TSLPlaneSDF
  | TankObj TSLPlaneDesertTank
  | RayObj TSLPlaneRaymarching

text \<open>An object holds live GPU resources while its geometry or its material is not disposed.\<close>

fun obj_live :: "obj \<Rightarrow> bool" where
  "obj_live (WaveObj p) =
     (\<not> geometry_disposed (wave_geometry p) \<or> \<not> material_disposed (wave_material p))"
| "obj_live (SdfObj p) =
     (\<not> geometry_disposed (sdf_geometry p) \<or> \<not> material_disposed (sdf_material p))"
| "obj_live (TankObj p) =
     (\<not> geometry_disposed (tank_geometry p) \<or> \<not> material_disposed (tank_material p))"
| "obj_live (RayObj p) =
     (\<not> geometry_disposed (ray_geometry p) \<or> \<not> material_disposed (ray_material p))"

fun dispose_obj :: "obj \<Rightarrow> obj" where
  "dispose_obj (WaveObj p) = WaveObj (wave_dispose p)"
| "dispose_obj (SdfObj p) = SdfObj (sdf_dispose p)"
| "dispose_obj (TankObj p) = TankObj (tank_dispose p)"
| "dispose_obj (RayObj p) = RayObj (ray_dispose p)"

datatype mesh = GridHelper | PlaneMesh oid

text \<open>
  Listener functions by identity. Each call of \<^verbatim>\<open>initControls\<close> and of
  \<^verbatim>\<open>setupMouseInteraction\<close> creates fresh closures, one set per object; the method
  \<^verbatim>\<open>this.initControls\<close> itself is one function of the class's prototype.
\<close>

datatype listener =
    onDocumentKey oid
  | onPointerMove oid
  | onPointerDown oid
  | initControls_method

text \<open>
  A registry never holds the same (type, function) pair twice, and removal takes out the
  entry with the very function that is passed.
\<close>

definition addEventListener ::
  "string \<Rightarrow> listener \<Rightarrow> (string \<times> listener) list \<Rightarrow> (string \<times> listener) list" where
  "addEventListener ty f ls = (if (ty, f) \<in> set ls then ls else ls @ [(ty, f)])"

definition removeEventListener ::
  "string \<Rightarrow> listener \<Rightarrow> (string \<times> listener) list \<Rightarrow> (string \<times> listener) list" where
  "removeEventListener ty f ls = remove1 (ty, f) ls"

datatype event = SceneRemove oid | Dispose oid | Construct oid | SceneAdd oid

datatype level = ConsoleLog | ConsoleWarn | ConsoleError

datatype tier = WebGPU | WebGL2 | WebGL

record Renderer =
  renderer_tier :: tier
  renderer_size :: "(real \<times> real) option"
  renderer_clearColor :: "nat option"

datatype completion = Returned | Thrown

text \<open>
  The fields of \<^verbatim>\<open>ThreeEngine\<close> that the plane lifecycle, the backend negotiation and
  \<^verbatim>\<open>resize\<close> read or write, together with the part of the browser they act on: the object
  heap, the listener registries of \<^verbatim>\<open>document\<close> and of the renderer's canvas, the console,
  and two histories kept for the statements below (\<open>trace\<close>: scene and resource
  operations on planes; \<open>tried\<close>: backend tiers in the order they were entered).
  \<open>shaderMaterial\<close> and \<open>shaderMaterialSimple\<close> are only assigned by initialisers whose
  calls are commented out in the constructor.
\<close>

record engine =
  forceRenderer :: "string option"
  scene :: "mesh list"
  camera_aspect :: "jsnum option"
  renderer :: "Renderer option"
  shaderMaterial :: "Material option"
  shaderMaterialSimple :: "Material option"
  tslPlane :: "oid option"
  tslPlaneSDF :: "oid option"
  tslDesertTank :: "oid option"
  raymarchPlane :: "oid option"
  currentActivePlane :: string
  heap :: "obj list"
  document_listeners :: "(string \<times> listener) list"
  domElement_listeners :: "(string \<times> listener) list"
  console :: "(level \<times> string) list"
  trace :: "event list"
  tried :: "tier list"

definition fields_init :: engine where
  "fields_init =
     \<lparr>forceRenderer = Some ''webgpu'', scene = [], camera_aspect = None, renderer = None,
      shaderMaterial = None, shaderMaterialSimple = None,
      tslPlane = None, tslPlaneSDF = None, tslDesertTank = None, raymarchPlane = None,
      currentActivePlane = ''none'', heap = [],
      document_listeners = [], domElement_listeners = [], console = [], trace = [],
      tried = []\<rparr>"

definition say :: "level \<Rightarrow> string \<Rightarrow> engine \<Rightarrow> engine" where
  "say l msg s = s\<lparr>console := console s @ [(l, msg)]\<rparr>"

section \<open>Backend negotiation: initThree\<close>

text \<open>
  What the browser answers during negotiation: whether \<^verbatim>\<open>navigator.gpu\<close> is present,
  whether \<^verbatim>\<open>canvas.getContext("webgl2")\<close> returns a context, whether each renderer
  constructor returns or throws, and the window's inner size.
\<close>

record browser =
  navigator_gpu :: bool
  WebGPURenderer_ok :: bool
  webgl2_context :: bool
  WebGL2Renderer_ok :: bool
  WebGLRenderer_ok :: bool
  innerWidth :: real
  innerHeight :: real

definition new_renderer :: "tier \<Rightarrow> engine \<Rightarrow> engine" where
  "new_renderer t s =
     s\<lparr>renderer := Some \<lparr>renderer_tier = t, renderer_size = None, renderer_clearColor = None\<rparr>\<rparr>"

definition enter :: "tier \<Rightarrow> engine \<Rightarrow> engine" where
  "enter t s = s\<lparr>tried := tried s @ [t]\<rparr>"

text \<open>The two statements after the three branches: \<^verbatim>\<open>setSize\<close> and \<^verbatim>\<open>setClearColor(0x222222)\<close>.\<close>

definition setSize_setClearColor :: "browser \<Rightarrow> engine \<Rightarrow> engine" where
  "setSize_setClearColor b s =
     (case renderer s of
        None \<Rightarrow> s
      | Some r \<Rightarrow>
          s\<lparr>renderer :=
              Some (r\<lparr>renderer_size := Some (innerWidth b, innerHeight b),
                      renderer_clearColor := Some 2236962\<rparr>)\<rparr>)"

text \<open>
  The last tier is constructed outside any \<^verbatim>\<open>try\<close>: when its constructor throws,
  \<^verbatim>\<open>initThree\<close> throws.
\<close>

definition baseline :: "string \<Rightarrow> browser \<Rightarrow> engine \<Rightarrow> completion \<times> engine" where
  "baseline msg b s =
     (let s1 = enter WebGL s in
      if WebGLRenderer_ok b
      then (Returned, setSize_setClearColor b (say ConsoleLog msg (new_renderer WebGL s1)))
      else (Thrown, s1))"

definition try_webgl2 ::
  "string \<Rightarrow> string \<Rightarrow> string \<Rightarrow> browser \<Rightarrow> engine \<Rightarrow> completion \<times> engine" where
  "try_webgl2 ok_msg fail_msg last_msg b s =
     (let s1 = enter WebGL2 s in
      if webgl2_context b then
        if WebGL2Renderer_ok b
        then (Returned, say ConsoleLog ok_msg (new_renderer WebGL2 s1))
        else baseline last_msg b (say ConsoleWarn fail_msg s1)
      else baseline last_msg b (say ConsoleWarn ''No WebGL2 support'' s1))"

definition initThree :: "browser \<Rightarrow> engine \<Rightarrow> completion \<times> engine" where
  "initThree b s0 =
     (let s = s0\<lparr>scene := [], camera_aspect := Some (js_div (innerWidth b) (innerHeight b))\<rparr>
      in
      if forceRenderer s = Some ''webgpu'' then
        (let s1 = enter WebGPU (say ConsoleLog ''Forcing WebGPU with fallbacks...'' s) in
         if navigator_gpu b then
           if WebGPURenderer_ok b
           then (Returned, say ConsoleLog ''Using WebGPURenderer'' (new_renderer WebGPU s1))
           else try_webgl2 ''Using WebGL2 fallback'' ''WebGL2 fallback failed:''
                  ''Using WebGL final fallback'' b (say ConsoleWarn ''WebGPU failed:'' s1)
         else try_webgl2 ''Using WebGL2 fallback'' ''WebGL2 fallback failed:''
                ''Using WebGL final fallback'' b
                (say ConsoleWarn ''No WebGPU support in browser'' s1))
      else if forceRenderer s = Some ''webgl2'' then
        try_webgl2 ''Using WebGL2Renderer'' ''WebGL2 failed:'' ''Using WebGL fallback'' b
          (say ConsoleLog ''Forcing WebGL2 with fallback...'' s)
      else baseline ''Using WebGLRenderer'' b (say ConsoleLog ''Using WebGL directly...'' s))"

definition initGrid :: "engine \<Rightarrow> engine" where
  "initGrid s = s\<lparr>scene := remove1 GridHelper (scene s) @ [GridHelper]\<rparr>"

definition tier_rank :: "tier \<Rightarrow> nat" where
  "tier_rank t = (case t of WebGPU \<Rightarrow> 0 | WebGL2 \<Rightarrow> 1 | WebGL \<Rightarrow> 2)"

section \<open>The plane lifecycle\<close>

definition scene_add_mesh :: "oid \<Rightarrow> engine \<Rightarrow> engine" where
  "scene_add_mesh i s =
     s\<lparr>scene := remove1 (PlaneMesh i) (scene s) @ [PlaneMesh i],
       trace := trace s @ [SceneAdd i]\<rparr>"

definition scene_remove_mesh :: "oid \<Rightarrow> engine \<Rightarrow> engine" where
  "scene_remove_mesh i s =
     s\<lparr>scene := remove1 (PlaneMesh i) (scene s), trace := trace s @ [SceneRemove i]\<rparr>"

text \<open>
  \<^verbatim>\<open>x.dispose()\<close> on the object a field refers to, dispatched on the object's class. The
  desert tank's \<^verbatim>\<open>dispose\<close> also calls \<^verbatim>\<open>document.removeEventListener\<close> for
  \<^verbatim>\<open>"keydown"\<close> and \<^verbatim>\<open>"keyup"\<close>, passing \<^verbatim>\<open>this.initControls\<close>. A field always refers to
  an object of the heap; for a dangling reference the model does nothing.
\<close>

definition dispose_at :: "oid \<Rightarrow> engine \<Rightarrow> engine" where
  "dispose_at i s =
     (if i < length (heap s) then
        s\<lparr>heap := (heap s)[i := dispose_obj (heap s ! i)],
          document_listeners :=
            (case heap s ! i of
               TankObj _ \<Rightarrow>
                 removeEventListener ''keyup'' initControls_method
                   (removeEventListener ''keydown'' initControls_method (document_listeners s))
             | _ \<Rightarrow> document_listeners s),
          trace := trace s @ [Dispose i]\<rparr>
      else s)"

definition cleanupCurrentPlane :: "engine \<Rightarrow> engine" where
  "cleanupCurrentPlane s0 =
     (let s1 = (case tslPlane s0 of None \<Rightarrow> s0
                | Some i \<Rightarrow> (dispose_at i (scene_remove_mesh i s0))\<lparr>tslPlane := None\<rparr>);
          s2 = (case tslPlaneSDF s1 of None \<Rightarrow> s1
                | Some i \<Rightarrow> (dispose_at i (scene_remove_mesh i s1))\<lparr>tslPlaneSDF := None\<rparr>);
          s3 = (case tslDesertTank s2 of None \<Rightarrow> s2
                | Some i \<Rightarrow> (dispose_at i (scene_remove_mesh i s2))\<lparr>tslDesertTank := None\<rparr>);
          s4 = (case raymarchPlane s3 of None \<Rightarrow> s3
                | Some i \<Rightarrow> (dispose_at i (scene_remove_mesh i s3))\<lparr>raymarchPlane := None\<rparr>)
      in s4)"

text \<open>\<^verbatim>\<open>new C(...)\<close> returning: the object gets the next identity.\<close>

definition construct :: "obj \<Rightarrow> engine \<Rightarrow> engine" where
  "construct ob s =
     s\<lparr>heap := heap s @ [ob], trace := trace s @ [Construct (length (heap s))]\<rparr>"

definition modify :: "oid \<Rightarrow> (obj \<Rightarrow> obj) \<Rightarrow> engine \<Rightarrow> engine" where
  "modify i f s = s\<lparr>heap := (heap s)[i := f (heap s ! i)]\<rparr>"

definition on_sdf :: "(TSLPlaneSDF \<Rightarrow> TSLPlaneSDF) \<Rightarrow> obj \<Rightarrow> obj" where
  "on_sdf f ob = (case ob of SdfObj p \<Rightarrow> SdfObj (f p) | _ \<Rightarrow> ob)"

definition on_tank :: "(TSLPlaneDesertTank \<Rightarrow> TSLPlaneDesertTank) \<Rightarrow> obj \<Rightarrow> obj" where
  "on_tank f ob = (case ob of TankObj p \<Rightarrow> TankObj (f p) | _ \<Rightarrow> ob)"

definition on_ray :: "(TSLPlaneRaymarching \<Rightarrow> TSLPlaneRaymarching) \<Rightarrow> obj \<Rightarrow> obj" where
  "on_ray f ob = (case ob of RayObj p \<Rightarrow> RayObj (f p) | _ \<Rightarrow> ob)"

definition size_params :: "real \<Rightarrow> real \<Rightarrow> PlaneParams" where
  "size_params w h =
     \<lparr>p_width = Some w, p_height = Some h, p_widthSegments = None, p_heightSegments = None\<rparr>"

definition createWavePlane :: "ctor_outcome \<Rightarrow> engine \<Rightarrow> engine" where
  "createWavePlane oc s =
     (case oc of
        CtorThrows \<Rightarrow> say ConsoleError ''Failed to create wave plane:'' s
      | Built _ \<Rightarrow>
          (let i = length (heap s);
               s1 = (construct (WaveObj (TSLPlane_new 8 8 128 128)) s)\<lparr>tslPlane := Some i\<rparr>;
               s2 = scene_add_mesh i s1
           in say ConsoleLog ''Wave plane created'' s2))"

definition createSDFPlane :: "ctor_outcome \<Rightarrow> engine \<Rightarrow> engine" where
  "createSDFPlane oc s =
     (case oc of
        CtorThrows \<Rightarrow> say ConsoleError ''Failed to create SDF plane:'' s
      | Built out \<Rightarrow>
          (let i = length (heap s);
               s1 = (construct (SdfObj (TSLPlaneSDF_new (size_params 8 4) out)) s)
                      \<lparr>tslPlaneSDF := Some i\<rparr>;
               s2 = modify i (on_sdf (sdf_set_radius (Num 0.3))) s1;
               s3 = modify i (on_sdf (sdf_set_fade (Num 2.0))) s2;
               s4 = scene_add_mesh i s3
           in say ConsoleLog ''SDF plane created'' s4))"

text \<open>
  The desert tank's constructor ends with \<^verbatim>\<open>initControls\<close>, which registers one new closure
  for \<^verbatim>\<open>"keydown"\<close> and \<^verbatim>\<open>"keyup"\<close> on the document.
\<close>

definition tank_initControls :: "oid \<Rightarrow> engine \<Rightarrow> engine" where
  "tank_initControls i s =
     s\<lparr>document_listeners :=
         addEventListener ''keyup'' (onDocumentKey i)
           (addEventListener ''keydown'' (onDocumentKey i) (document_listeners s))\<rparr>"

definition createDesertTankPlane :: "ctor_outcome \<Rightarrow> engine \<Rightarrow> engine" where
  "createDesertTankPlane oc s =
     (case oc of
        CtorThrows \<Rightarrow> say ConsoleError ''Failed to create desert tank plane:'' s
      | Built out \<Rightarrow>
          (let i = length (heap s);
               s1 = (tank_initControls i
                       (construct (TankObj (TSLPlaneDesertTank_new (size_params 4 3) out)) s))
                      \<lparr>tslDesertTank := Some i\<rparr>;
               s2 = scene_add_mesh i s1
           in say ConsoleLog ''Desert tank plane created'' s2))"

definition setupMouseInteraction :: "oid \<Rightarrow> engine \<Rightarrow> engine" where
  "setupMouseInteraction i s =
     (modify i (on_ray (\<lambda>p. p\<lparr>ray_camera := True\<rparr>)) s)
       \<lparr>domElement_listeners :=
          addEventListener ''pointerdown'' (onPointerDown i)
            (addEventListener ''pointermove'' (onPointerMove i) (domElement_listeners s))\<rparr>"

text \<open>
  \<^verbatim>\<open>createRayMarchingPlane\<close> has no \<^verbatim>\<open>try\<close>: a throwing constructor leaves it by exception, and
  so does reading \<^verbatim>\<open>this.renderer.domElement\<close> when there is no renderer. The field is
  assigned last.
\<close>

definition createRayMarchingPlane :: "ctor_outcome \<Rightarrow> engine \<Rightarrow> completion \<times> engine" where
  "createRayMarchingPlane oc s =
     (case oc of
        CtorThrows \<Rightarrow> (Thrown, s)
      | Built out \<Rightarrow>
          (let i = length (heap s);
               s1 = construct (RayObj (TSLPlaneRaymarching_new (size_params 8 8) out)) s;
               s2 = scene_add_mesh i s1
           in case renderer s2 of
                None \<Rightarrow> (Thrown, s2)
              | Some _ \<Rightarrow>
                  (let s3 = setupMouseInteraction i s2;
                       s4 = modify i (on_ray (ray_set_radius (Num 0.2))) s3;
                       s5 = modify i (on_ray (ray_set_maxSteps (Num 25))) s4;
                       s6 = modify i (on_ray (ray_set_surfaceDistance (Num 0.0001))) s5;
                       s7 = modify i (on_ray (ray_set_timeMultiplier (Num 0.5))) s6
                   in (Returned, s7\<lparr>raymarchPlane := Some i\<rparr>))))"

definition switched :: "string \<Rightarrow> engine \<Rightarrow> completion \<times> engine" where
  "switched planeType s =
     (Returned,
      say ConsoleLog (''Successfully switched to: '' @ planeType)
        (s\<lparr>currentActivePlane := planeType\<rparr>))"

text \<open>
  The tag is a string at run time; the \<^verbatim>\<open>switch\<close> compares it with the five literals in
  the source's order and has a \<^verbatim>\<open>default\<close> branch that warns and returns.
\<close>

definition switchToPlane :: "ctor_outcome \<Rightarrow> string \<Rightarrow> engine \<Rightarrow> completion \<times> engine" where
  "switchToPlane oc planeType s0 =
     (let s = cleanupCurrentPlane (say ConsoleLog (''Switching to plane: '' @ planeType) s0)
      in
      if planeType = ''wave'' then switched planeType (createWavePlane oc s)
      else if planeType = ''sdf'' then switched planeType (createSDFPlane oc s)
      else if planeType = ''desert-tank'' then switched planeType (createDesertTankPlane oc s)
      else if planeType = ''raymarching'' then
        (case createRayMarchingPlane oc s of
           (Thrown, s') \<Rightarrow> (Thrown, s')
         | (Returned, s') \<Rightarrow> switched planeType s')
      else if planeType = ''none'' then switched planeType s
      else (Returned, say ConsoleWarn (''Unknown plane type: '' @ planeType) s))"

section \<open>Resize and input events\<close>

definition resize :: "real \<Rightarrow> real \<Rightarrow> engine \<Rightarrow> engine" where
  "resize vw vh s =
     (case renderer s of
        None \<Rightarrow> s
      | Some r \<Rightarrow>
          s\<lparr>camera_aspect := Some (js_div vw vh),
            renderer := Some (r\<lparr>renderer_size := Some (vw, vh)\<rparr>),
            shaderMaterial :=
              map_option (shader_uniform_set ''uResolution'' (Vec2 vw vh)) (shaderMaterial s),
            shaderMaterialSimple :=
              map_option (shader_uniform_set ''uResolution'' (Vec2 vw vh))
                (shaderMaterialSimple s)\<rparr>)"

text \<open>
  A pointer-move event comes with the result of the ray cast against the plane's mesh: no
  intersection, or the first intersection with its \<^verbatim>\<open>uv\<close> (which may be undefined).
\<close>

datatype raycast = Miss | Hit "(real \<times> real) option"

datatype dom_event = KeyEvent bool string | PointerMoveEvent raycast | PointerDownEvent

definition event_type :: "dom_event \<Rightarrow> string" where
  "event_type e =
     (case e of
        KeyEvent down _ \<Rightarrow> (if down then ''keydown'' else ''keyup'')
      | PointerMoveEvent _ \<Rightarrow> ''pointermove''
      | PointerDownEvent \<Rightarrow> ''pointerdown'')"

text \<open>
  The bodies of the closures. \<open>initControls_method\<close> is never registered by the source;
  as a listener it is given no effect here.
\<close>

fun run_listener :: "dom_event \<Rightarrow> listener \<Rightarrow> engine \<Rightarrow> engine" where
  "run_listener (KeyEvent down code) (onDocumentKey i) s =
     modify i (on_tank (\<lambda>p. p\<lparr>tank_keyMap := (tank_keyMap p)(code \<mapsto> down)\<rparr>)) s"
| "run_listener (PointerMoveEvent (Hit uv)) (onPointerMove i) s =
     modify i
       (on_ray (ray_set_rayTo (case uv of None \<Rightarrow> Vec2 1 1 | Some (u, v) \<Rightarrow> Vec2 u v))) s"
| "run_listener PointerDownEvent (onPointerDown i) s =
     modify i (on_ray (\<lambda>p. ray_set_rayFrom (ray_rayTo p) p)) s"
| "run_listener _ _ s = s"

definition dispatch :: "dom_event \<Rightarrow> (string \<times> listener) list \<Rightarrow> engine \<Rightarrow> engine" where
  "dispatch e ls s =
     foldl (\<lambda>s' (ty, f). if ty = event_type e then run_listener e f s' else s') s ls"

text \<open>
  What reaches the engine between two frames: a variant selection (with the outcome of the
  constructor it will run), a resize, a keyboard event on the document, a pointer event on
  the canvas. An exception that leaves \<^verbatim>\<open>switchToPlane\<close> ends the handler; the state stays
  as it was at the throw.
\<close>

datatype command =
    SelectVariant ctor_outcome string
  | Resize real real
  | Keyboard bool string
  | PointerMove raycast
  | PointerDown

fun exec :: "command \<Rightarrow> engine \<Rightarrow> engine" where
  "exec (SelectVariant oc p) s = snd (switchToPlane oc p s)"
| "exec (Resize vw vh) s = resize vw vh s"
| "exec (Keyboard down code) s = dispatch (KeyEvent down code) (document_listeners s) s"
| "exec (PointerMove rc) s = dispatch (PointerMoveEvent rc) (domElement_listeners s) s"
| "exec PointerDown s = dispatch PointerDownEvent (domElement_listeners s) s"

definition run :: "command list \<Rightarrow> engine \<Rightarrow> engine" where
  "run cmds s = foldl (\<lambda>s' c. exec c s') s cmds"

text \<open>
  The engine as the constructor has it before its first \<^verbatim>\<open>switchToPlane\<close>: fields
  initialised, \<^verbatim>\<open>forceRenderer\<close> set to \<^verbatim>\<open>"webgpu"\<close>, \<^verbatim>\<open>initThree\<close> and \<^verbatim>\<open>initGrid\<close> run
  (\<^verbatim>\<open>initLights\<close> and \<^verbatim>\<open>initControls\<close> touch none of the modelled fields). The constructor
  then builds the button panel, whose own constructor selects \<^verbatim>\<open>"wave"\<close> through
  \<^verbatim>\<open>onPlaneChange\<close>, and finally switches to \<^verbatim>\<open>"raymarching"\<close>.
\<close>

definition boot :: "browser \<Rightarrow> engine option" where
  "boot b =
     (case initThree b (fields_init\<lparr>forceRenderer := Some ''webgpu''\<rparr>) of
        (Returned, s) \<Rightarrow> Some (initGrid s)
      | (Thrown, _) \<Rightarrow> None)"

definition ThreeEngine_new ::
  "browser \<Rightarrow> ctor_outcome \<Rightarrow> ctor_outcome \<Rightarrow> (completion \<times> engine) option" where
  "ThreeEngine_new b oc_wave oc_ray =
     (case boot b of
        None \<Rightarrow> None
      | Some s \<Rightarrow>
          (case switchToPlane oc_wave ''wave'' s of
             (Thrown, s') \<Rightarrow> Some (Thrown, s')
           | (Returned, s') \<Rightarrow> Some (switchToPlane oc_ray ''raymarching'' s')))"

section \<open>Observations\<close>

definition live_planes :: "engine \<Rightarrow> obj list" where
  "live_planes s = filter obj_live (heap s)"

definition refs :: "engine \<Rightarrow> oid set" where
  "refs s =
     set_option (tslPlane s) \<union> set_option (tslPlaneSDF s) \<union> set_option (tslDesertTank s)
       \<union> set_option (raymarchPlane s)"

text \<open>
  A monitor over the history of scene and resource operations: it keeps the planes that
  were constructed and not yet disposed, and the planes attached to the scene, and it
  fails at a construction that starts while either list is non-empty.
\<close>

fun observe :: "(oid list \<times> oid list) option \<Rightarrow> event \<Rightarrow> (oid list \<times> oid list) option" where
  "observe None _ = None"
| "observe (Some (al, att)) (Construct b) = (if al = [] \<and> att = [] then Some ([b], att) else None)"
| "observe (Some (al, att)) (Dispose a) = Some (removeAll a al, att)"
| "observe (Some (al, att)) (SceneAdd a) = Some (al, List.insert a att)"
| "observe (Some (al, att)) (SceneRemove a) = Some (al, removeAll a att)"

definition teardown_precedes_construction :: "event list \<Rightarrow> bool" where
  "teardown_precedes_construction tr = (foldl observe (Some ([], [])) tr \<noteq> None)"

text \<open>
  The plane a field of the engine refers to, as an object of its class: what
  \<^verbatim>\<open>this.tslPlaneSDF\<close>, \<^verbatim>\<open>this.tslDesertTank\<close> and \<^verbatim>\<open>this.raymarchPlane\<close> denote.
\<close>

definition as_sdf :: "obj \<Rightarrow> TSLPlaneSDF option" where
  "as_sdf ob = (case ob of SdfObj p \<Rightarrow> Some p | _ \<Rightarrow> None)"

definition as_tank :: "obj \<Rightarrow> TSLPlaneDesertTank option" where
  "as_tank ob = (case ob of TankObj p \<Rightarrow> Some p | _ \<Rightarrow> None)"

definition as_ray :: "obj \<Rightarrow> TSLPlaneRaymarching option" where
  "as_ray ob = (case ob of RayObj p \<Rightarrow> Some p | _ \<Rightarrow> None)"

definition deref :: "oid option \<Rightarrow> engine \<Rightarrow> obj option" where
  "deref r s =
     (case r of None \<Rightarrow> None
      | Some i \<Rightarrow> (if i < length (heap s) then Some (heap s ! i) else None))"

definition active_sdf :: "engine \<Rightarrow> TSLPlaneSDF option" where
  "active_sdf s = Option.bind (deref (tslPlaneSDF s) s) as_sdf"

definition active_tank :: "engine \<Rightarrow> TSLPlaneDesertTank option" where
  "active_tank s = Option.bind (deref (tslDesertTank s) s) as_tank"

definition active_ray :: "engine \<Rightarrow> TSLPlaneRaymarching option" where
  "active_ray s = Option.bind (deref (raymarchPlane s) s) as_ray"

definition tank_key :: "string \<Rightarrow> TSLPlaneDesertTank \<Rightarrow> bool option" where
  "tank_key code p = tank_keyMap p code"

section \<open>Invariant of the lifecycle\<close>

text \<open>
  Devices of the proofs below, not parts of the program. \<open>tracked R h sc tr\<close> relates a set of
  references \<open>R\<close> to a heap, a scene and a history: the references are valid, every live
  object and every attached plane mesh is referenced, and the monitor has accepted the
  history with only referenced planes alive or attached. \<open>consistent\<close> adds that the engine
  has a renderer and that at most one of its four fields is set. \<open>attach\<close>, \<open>sdf_built\<close>
  and \<open>ray_built\<close> name the net effect of the create functions.
\<close>

definition monitor :: "event list \<Rightarrow> (oid list \<times> oid list) option" where
  "monitor tr = foldl observe (Some ([], [])) tr"

definition tracked :: "oid set \<Rightarrow> obj list \<Rightarrow> mesh list \<Rightarrow> event list \<Rightarrow> bool" where
  "tracked R h sc tr =
     ((\<forall>i\<in>R. i < length h) \<and>
      (\<forall>i<length h. obj_live (h ! i) \<longrightarrow> i \<in> R) \<and>
      (\<forall>i. PlaneMesh i \<in> set sc \<longrightarrow> i \<in> R) \<and> distinct sc \<and>
      (\<exists>al att. monitor tr = Some (al, att) \<and> set al \<subseteq> R \<and> set att \<subseteq> R))"

definition einv :: "oid set \<Rightarrow> engine \<Rightarrow> bool" where
  "einv R s = tracked R (heap s) (scene s) (trace s)"

definition sdf_built :: "tsl_outcome \<Rightarrow> TSLPlaneSDF" where
  "sdf_built out =
     sdf_set_fade (Num 2.0) (sdf_set_radius (Num 0.3) (TSLPlaneSDF_new (size_params 8 4) out))"

definition ray_built :: "tsl_outcome \<Rightarrow> TSLPlaneRaymarching" where
  "ray_built out =
     ray_set_timeMultiplier (Num 0.5)
       (ray_set_surfaceDistance (Num 0.0001)
         (ray_set_maxSteps (Num 25)
           (ray_set_radius (Num 0.2)
             ((TSLPlaneRaymarching_new (size_params 8 8) out)\<lparr>ray_camera := True\<rparr>))))"

definition attach :: "obj \<Rightarrow> engine \<Rightarrow> engine" where
  "attach ob s =
     s\<lparr>heap := heap s @ [ob],
       scene := remove1 (PlaneMesh (length (heap s))) (scene s) @ [PlaneMesh (length (heap s))],
       trace := trace s @ [Construct (length (heap s)), SceneAdd (length (heap s))]\<rparr>"

definition occupied :: "engine \<Rightarrow> nat" where
  "occupied s =
     length (filter (\<lambda>r. r \<noteq> None)
       [tslPlane s, tslPlaneSDF s, tslDesertTank s, raymarchPlane s])"

definition consistent :: "engine \<Rightarrow> bool" where
  "consistent s = (renderer s \<noteq> None \<and> einv (refs s) s \<and> occupied s \<le> 1)"

text \<open>
  \<open>has_uniform\<close>: the material has a shader-table entry of that name. \<open>ray_wired\<close>: each of
  the four parameters the engine sets on activation has a uniform node or a table entry to
  receive the value.
\<close>

definition has_uniform :: "string \<Rightarrow> Material \<Rightarrow> bool" where
  "has_uniform n m = (case uniforms m of None \<Rightarrow> False | Some us \<Rightarrow> map_of us n \<noteq> None)"

definition ray_wired :: "TSLPlaneRaymarching \<Rightarrow> bool" where
  "ray_wired p =
     ((ray_radiusUniform p \<noteq> None \<or> has_uniform ''uRadius'' (ray_material p)) \<and>
      (ray_maxStepsUniform p \<noteq> None \<or> has_uniform ''uMaxSteps'' (ray_material p)) \<and>
      (ray_surfaceDistanceUniform p \<noteq> None \<or>
         has_uniform ''uSurfaceDistance'' (ray_material p)) \<and>
      (ray_timeMultiplierUniform p \<noteq> None \<or>
         has_uniform ''uTimeMultiplier'' (ray_material p)))"

definition built_obj :: "string \<Rightarrow> tsl_outcome \<Rightarrow> obj" where
  "built_obj p out =
     (if p = ''wave'' then WaveObj (TSLPlane_new 8 8 128 128)
      else if p = ''sdf'' then SdfObj (sdf_built out)
      else if p = ''desert-tank'' then TankObj (TSLPlaneDesertTank_new (size_params 4 3) out)
      else RayObj (ray_built out))"

text \<open>The text of the \<^verbatim>\<open>console.error\<close> call in the \<^verbatim>\<open>catch\<close> block of each create function.\<close>

definition failure_message :: "string \<Rightarrow> string" where
  "failure_message p =
     (if p = ''wave'' then ''Failed to create wave plane:''
      else if p = ''sdf'' then ''Failed to create SDF plane:''
      else ''Failed to create desert tank plane:'')"

section \<open>Concrete browsers and scenarios\<close>

definition chrome :: browser where
  "chrome =
     \<lparr>navigator_gpu = True, WebGPURenderer_ok = True, webgl2_context = True,
      WebGL2Renderer_ok = True, WebGLRenderer_ok = True,
      innerWidth = 1024, innerHeight = 768\<rparr>"

definition no_webgpu :: browser where
  "no_webgpu =
     \<lparr>navigator_gpu = False, WebGPURenderer_ok = False, webgl2_context = True,
      WebGL2Renderer_ok = True, WebGLRenderer_ok = True,
      innerWidth = 1024, innerHeight = 768\<rparr>"

definition only_webgl :: browser where
  "only_webgl =
     \<lparr>navigator_gpu = False, WebGPURenderer_ok = False, webgl2_context = False,
      WebGL2Renderer_ok = False, WebGLRenderer_ok = True,
      innerWidth = 1024, innerHeight = 768\<rparr>"

definition chrome_engine :: engine where
  "chrome_engine =
     \<lparr>forceRenderer = Some ''webgpu'', scene = [GridHelper],
      camera_aspect = Some (Finite (1024 / 768)),
      renderer =
        Some \<lparr>renderer_tier = WebGPU, renderer_size = None, renderer_clearColor = None\<rparr>,
      shaderMaterial = None, shaderMaterialSimple = None,
      tslPlane = None, tslPlaneSDF = None, tslDesertTank = None, raymarchPlane = None,
      currentActivePlane = ''none'', heap = [],
      document_listeners = [], domElement_listeners = [],
      console =
        [(ConsoleLog, ''Forcing WebGPU with fallbacks...''),
         (ConsoleLog, ''Using WebGPURenderer'')],
      trace = [], tried = [WebGPU]\<rparr>"

definition tank_then_ray_then_none :: engine where
  "tank_then_ray_then_none =
     run [SelectVariant (Built TslOk) ''desert-tank'',
          SelectVariant (Built TslOk) ''raymarching'',
          SelectVariant (Built TslOk) ''none''] chrome_engine"



section \<open>Backend negotiation\<close>

lemmas initThree_defs =
  initThree_def try_webgl2_def baseline_def enter_def say_def new_renderer_def
  setSize_setClearColor_def fields_init_def Let_def

text \<open>
  C5. The tiers are entered in the order WebGPU, WebGL2, WebGL, never backwards and each at
  most once, whatever \<^verbatim>\<open>forceRenderer\<close> holds; with the constructor's value \<^verbatim>\<open>"webgpu"\<close>
  the tiers entered are a prefix of that order starting at WebGPU. When the preferred tier
  is unavailable (no \<^verbatim>\<open>navigator.gpu\<close>, or its renderer constructor throws) and the
  secondary tier is available (a WebGL2 context and a constructor that returns), the
  negotiation returns with the WebGL2 renderer and the baseline is never entered.
\<close>

theorem backend_negotiation_order:
  "sorted_wrt (<)
     (map tier_rank (tried (snd (initThree b (fields_init\<lparr>forceRenderer := fr\<rparr>))))) \<and>
   tried (snd (initThree b fields_init))
     \<in> {[WebGPU], [WebGPU, WebGL2], [WebGPU, WebGL2, WebGL]} \<and>
   (\<not> (navigator_gpu b \<and> WebGPURenderer_ok b) \<and> webgl2_context b \<and> WebGL2Renderer_ok b \<longrightarrow>
      fst (initThree b fields_init) = Returned \<and>
      map_option renderer_tier (renderer (snd (initThree b fields_init))) = Some WebGL2 \<and>
      tried (snd (initThree b fields_init)) = [WebGPU, WebGL2])"
  by (simp add: initThree_defs tier_rank_def)

theorem backend_negotiation_order_witness:
  "\<not> (navigator_gpu no_webgpu \<and> WebGPURenderer_ok no_webgpu) \<and> webgl2_context no_webgpu \<and>
   WebGL2Renderer_ok no_webgpu \<and>
   fst (initThree no_webgpu fields_init) = Returned \<and>
   map_option renderer_tier (renderer (snd (initThree no_webgpu fields_init))) = Some WebGL2 \<and>
   tried (snd (initThree no_webgpu fields_init)) = [WebGPU, WebGL2]"
  using backend_negotiation_order [of no_webgpu] by (simp add: no_webgpu_def)

text \<open>
  C10. A renderer of the WebGPU or WebGL2 tier comes from a branch that returns at once:
  \<^verbatim>\<open>setSize\<close> and \<^verbatim>\<open>setClearColor\<close> were not called on it, its size and clear colour are
  as constructed. With the constructor's \<^verbatim>\<open>forceRenderer = "webgpu"\<close>, a renderer whose
  size or clear colour was set is the baseline WebGL renderer, reached after the WebGPU and
  WebGL2 tiers were both entered and left.
\<close>

theorem early_return_skips_setSize:
  "(\<forall>r. renderer (snd (initThree b (fields_init\<lparr>forceRenderer := fr\<rparr>))) = Some r \<and>
        renderer_tier r \<noteq> WebGL \<longrightarrow>
        fst (initThree b (fields_init\<lparr>forceRenderer := fr\<rparr>)) = Returned \<and>
        renderer_size r = None \<and> renderer_clearColor r = None) \<and>
   (\<forall>r. renderer (snd (initThree b fields_init)) = Some r \<and>
        (renderer_size r \<noteq> None \<or> renderer_clearColor r \<noteq> None) \<longrightarrow>
        renderer_tier r = WebGL \<and>
        tried (snd (initThree b fields_init)) = [WebGPU, WebGL2, WebGL] \<and>
        renderer_size r = Some (innerWidth b, innerHeight b) \<and>
        renderer_clearColor r = Some 2236962)"
  by (auto simp add: initThree_defs split: if_splits)

theorem early_return_skips_setSize_witness:
  "renderer (snd (initThree no_webgpu fields_init)) =
     Some \<lparr>renderer_tier = WebGL2, renderer_size = None, renderer_clearColor = None\<rparr> \<and>
   fst (initThree no_webgpu fields_init) = Returned \<and>
   renderer (snd (initThree only_webgl fields_init)) =
     Some \<lparr>renderer_tier = WebGL, renderer_size = Some (1024, 768),
           renderer_clearColor = Some 2236962\<rparr> \<and>
   tried (snd (initThree only_webgl fields_init)) = [WebGPU, WebGL2, WebGL]"
proof -
  have a: "renderer (snd (initThree no_webgpu fields_init)) =
     Some \<lparr>renderer_tier = WebGL2, renderer_size = None, renderer_clearColor = None\<rparr>"
    by (simp add: initThree_defs no_webgpu_def)
  have b: "renderer (snd (initThree only_webgl fields_init)) =
     Some \<lparr>renderer_tier = WebGL, renderer_size = Some (1024, 768),
           renderer_clearColor = Some 2236962\<rparr>"
    by (simp add: initThree_defs only_webgl_def)
  have f: "fields_init\<lparr>forceRenderer := Some ''webgpu''\<rparr> = fields_init"
    by (simp add: fields_init_def)
  from early_return_skips_setSize [of no_webgpu "Some ''webgpu''"] a f
  have c: "fst (initThree no_webgpu fields_init) = Returned" by simp
  from early_return_skips_setSize [of only_webgl "Some ''webgpu''"] b
  have d: "tried (snd (initThree only_webgl fields_init)) = [WebGPU, WebGL2, WebGL]" by simp
  from a b c d show ?thesis by simp
qed

section \<open>Lifecycle: helper lemmas\<close>

lemma monitor_snoc: "monitor (tr @ [e]) = observe (monitor tr) e"
  by (simp add: monitor_def)

lemma not_live_dispose [simp]: "\<not> obj_live (dispose_obj x)"
  by (cases x) (simp_all add: wave_dispose_def sdf_dispose_def tank_dispose_def ray_dispose_def
      geometry_dispose_def material_dispose_def)

lemma scene_remove_mesh_proj [simp]:
  "heap (scene_remove_mesh i s) = heap s"
  "scene (scene_remove_mesh i s) = remove1 (PlaneMesh i) (scene s)"
  "trace (scene_remove_mesh i s) = trace s @ [SceneRemove i]"
  "tslPlane (scene_remove_mesh i s) = tslPlane s"
  "tslPlaneSDF (scene_remove_mesh i s) = tslPlaneSDF s"
  "tslDesertTank (scene_remove_mesh i s) = tslDesertTank s"
  "raymarchPlane (scene_remove_mesh i s) = raymarchPlane s"
  "renderer (scene_remove_mesh i s) = renderer s"
  "currentActivePlane (scene_remove_mesh i s) = currentActivePlane s"
  "console (scene_remove_mesh i s) = console s"
  "document_listeners (scene_remove_mesh i s) = document_listeners s"
  "domElement_listeners (scene_remove_mesh i s) = domElement_listeners s"
  by (simp_all add: scene_remove_mesh_def)

lemma dispose_at_proj [simp]:
  "heap (dispose_at i s) = (heap s)[i := dispose_obj (heap s ! i)]"
  "scene (dispose_at i s) = scene s"
  "trace (dispose_at i s) = (if i < length (heap s) then trace s @ [Dispose i] else trace s)"
  "tslPlane (dispose_at i s) = tslPlane s"
  "tslPlaneSDF (dispose_at i s) = tslPlaneSDF s"
  "tslDesertTank (dispose_at i s) = tslDesertTank s"
  "raymarchPlane (dispose_at i s) = raymarchPlane s"
  "renderer (dispose_at i s) = renderer s"
  "currentActivePlane (dispose_at i s) = currentActivePlane s"
  "console (dispose_at i s) = console s"
  "domElement_listeners (dispose_at i s) = domElement_listeners s"
  by (simp_all add: dispose_at_def list_update_beyond)

lemma tracked_teardown:
  assumes "tracked R h sc tr"
  shows "tracked (R - {i}) (h[i := dispose_obj (h ! i)]) (remove1 (PlaneMesh i) sc)
           (if i < length h then tr @ [SceneRemove i, Dispose i] else tr @ [SceneRemove i])"
proof -
  from assms obtain al att where m: "monitor tr = Some (al, att)" "set al \<subseteq> R" "set att \<subseteq> R"
    by (auto simp: tracked_def)
  have v: "\<forall>j\<in>R. j < length h" using assms by (simp add: tracked_def)
  have l: "\<forall>j<length h. obj_live (h ! j) \<longrightarrow> j \<in> R" using assms by (simp add: tracked_def)
  have sc: "\<forall>j. PlaneMesh j \<in> set sc \<longrightarrow> j \<in> R" "distinct sc" using assms by (simp_all add: tracked_def)
  show ?thesis
  proof (cases "i < length h")
    case True
    have "monitor (tr @ [SceneRemove i, Dispose i]) = Some (removeAll i al, removeAll i att)"
      using m by (simp add: monitor_def)
    moreover have "\<forall>j<length h. obj_live ((h[i := dispose_obj (h ! i)]) ! j) \<longrightarrow> j \<in> R - {i}"
      using l True by (auto simp: nth_list_update)
    ultimately show ?thesis using True m v sc unfolding tracked_def
      by (auto simp del: append.simps)
  next
    case False
    then have "i \<notin> R" using v by auto
    moreover have "monitor (tr @ [SceneRemove i]) = Some (al, removeAll i att)"
      using m by (simp add: monitor_def)
    ultimately show ?thesis using False m v sc l unfolding tracked_def
      by (auto simp del: append.simps)
  qed
qed

lemma einv_teardown: "einv R s \<Longrightarrow> einv (R - {i}) (dispose_at i (scene_remove_mesh i s))"
  using tracked_teardown [of R "heap s" "scene s" "trace s" i]
  by (cases "i < length (heap s)") (simp_all add: einv_def)

lemma einv_slot_update [simp]:
  "einv R (s\<lparr>tslPlane := a\<rparr>) = einv R s"
  "einv R (s\<lparr>tslPlaneSDF := a\<rparr>) = einv R s"
  "einv R (s\<lparr>tslDesertTank := a\<rparr>) = einv R s"
  "einv R (s\<lparr>raymarchPlane := a\<rparr>) = einv R s"
  "einv R (s\<lparr>currentActivePlane := p\<rparr>) = einv R s"
  "einv R (s\<lparr>console := c\<rparr>) = einv R s"
  by (simp_all add: einv_def)

lemma cleanup_frame [simp]:
  "tslPlane (cleanupCurrentPlane s) = None"
  "tslPlaneSDF (cleanupCurrentPlane s) = None"
  "tslDesertTank (cleanupCurrentPlane s) = None"
  "raymarchPlane (cleanupCurrentPlane s) = None"
  "renderer (cleanupCurrentPlane s) = renderer s"
  "currentActivePlane (cleanupCurrentPlane s) = currentActivePlane s"
  "console (cleanupCurrentPlane s) = console s"
  "domElement_listeners (cleanupCurrentPlane s) = domElement_listeners s"
  "length (heap (cleanupCurrentPlane s)) = length (heap s)"
  by (simp_all add: cleanupCurrentPlane_def Let_def split: option.splits)

lemma refs_cleanup [simp]: "refs (cleanupCurrentPlane s) = {}"
  by (simp add: refs_def)

lemma cleanup_einv:
  assumes "einv (refs s) s"
  shows "einv {} (cleanupCurrentPlane s)"
proof -
  define s1 where "s1 = (case tslPlane s of None \<Rightarrow> s
      | Some i \<Rightarrow> (dispose_at i (scene_remove_mesh i s))\<lparr>tslPlane := None\<rparr>)"
  define s2 where "s2 = (case tslPlaneSDF s1 of None \<Rightarrow> s1
      | Some i \<Rightarrow> (dispose_at i (scene_remove_mesh i s1))\<lparr>tslPlaneSDF := None\<rparr>)"
  define s3 where "s3 = (case tslDesertTank s2 of None \<Rightarrow> s2
      | Some i \<Rightarrow> (dispose_at i (scene_remove_mesh i s2))\<lparr>tslDesertTank := None\<rparr>)"
  define s4 where "s4 = (case raymarchPlane s3 of None \<Rightarrow> s3
      | Some i \<Rightarrow> (dispose_at i (scene_remove_mesh i s3))\<lparr>raymarchPlane := None\<rparr>)"
  have c: "cleanupCurrentPlane s = s4"
    unfolding cleanupCurrentPlane_def Let_def s4_def s3_def s2_def s1_def ..
  have f1: "tslPlaneSDF s1 = tslPlaneSDF s" "tslDesertTank s1 = tslDesertTank s"
    "raymarchPlane s1 = raymarchPlane s"
    by (simp_all add: s1_def split: option.splits)
  have f2: "tslDesertTank s2 = tslDesertTank s1" "raymarchPlane s2 = raymarchPlane s1"
    by (simp_all add: s2_def split: option.splits)
  have f3: "raymarchPlane s3 = raymarchPlane s2"
    by (simp_all add: s3_def split: option.splits)
  have e1: "einv (refs s - set_option (tslPlane s)) s1"
    using assms einv_teardown [of "refs s" s] by (simp add: s1_def split: option.splits)
  have e2: "einv (refs s - set_option (tslPlane s) - set_option (tslPlaneSDF s1)) s2"
    using e1 einv_teardown [of _ s1] by (simp add: s2_def split: option.splits)
  have e3: "einv (refs s - set_option (tslPlane s) - set_option (tslPlaneSDF s1)
      - set_option (tslDesertTank s2)) s3"
    using e2 einv_teardown [of _ s2] by (simp add: s3_def split: option.splits)
  have e4: "einv (refs s - set_option (tslPlane s) - set_option (tslPlaneSDF s1)
      - set_option (tslDesertTank s2) - set_option (raymarchPlane s3)) s4"
    using e3 einv_teardown [of _ s3] by (simp add: s4_def split: option.splits)
  have "refs s - set_option (tslPlane s) - set_option (tslPlaneSDF s1)
      - set_option (tslDesertTank s2) - set_option (raymarchPlane s3) = {}"
    by (auto simp: refs_def f1 f2 f3)
  with e4 c show ?thesis by simp
qed

lemma tracked_create:
  assumes "tracked {} h sc tr"
  shows "tracked {length h} (h @ [x]) (remove1 (PlaneMesh (length h)) sc @ [PlaneMesh (length h)])
           (tr @ [Construct (length h), SceneAdd (length h)])"
proof -
  from assms have m: "monitor tr = Some ([], [])" by (auto simp: tracked_def)
  from assms have d: "\<forall>i<length h. \<not> obj_live (h ! i)" by (simp add: tracked_def)
  from assms have n: "\<forall>i. PlaneMesh i \<notin> set sc" "distinct sc" by (simp_all add: tracked_def)
  then have r: "remove1 (PlaneMesh (length h)) sc = sc" by (simp add: remove1_idem)
  have "monitor (tr @ [Construct (length h), SceneAdd (length h)]) = Some ([length h], [length h])"
    using m by (simp add: monitor_def)
  then show ?thesis using d n r unfolding tracked_def
    by (auto simp: nth_append simp del: append.simps)
qed

lemma at_most_one:
  "(\<forall>i<length xs. P (xs ! i) \<longrightarrow> i = k) \<Longrightarrow> length (filter P xs) \<le> 1"
proof (induction xs rule: rev_induct)
  case Nil
  then show ?case by simp
next
  case (snoc x xs)
  have ih: "\<forall>i<length xs. P (xs ! i) \<longrightarrow> i = k"
    using snoc.prems by (auto simp: nth_append split: if_splits)
  show ?case
  proof (cases "P x")
    case False
    then show ?thesis using snoc.IH ih by simp
  next
    case True
    then have k: "k = length xs" using snoc.prems by (auto simp: nth_append)
    then have "\<forall>y\<in>set xs. \<not> P y" using ih by (auto simp: in_set_conv_nth)
    then have "filter P xs = []" by (simp add: filter_empty_conv)
    then show ?thesis by simp
  qed
qed

lemma createWavePlane_built:
  "createWavePlane (Built out) s =
     say ConsoleLog ''Wave plane created''
       ((attach (WaveObj (TSLPlane_new 8 8 128 128)) s)\<lparr>tslPlane := Some (length (heap s))\<rparr>)"
  by (simp add: createWavePlane_def attach_def Let_def construct_def scene_add_mesh_def say_def)

lemma createSDFPlane_built:
  "createSDFPlane (Built out) s =
     say ConsoleLog ''SDF plane created''
       ((attach (SdfObj (sdf_built out)) s)\<lparr>tslPlaneSDF := Some (length (heap s))\<rparr>)"
  by (simp add: createSDFPlane_def attach_def Let_def construct_def scene_add_mesh_def say_def
      modify_def on_sdf_def sdf_built_def)

lemma createDesertTankPlane_built:
  "createDesertTankPlane (Built out) s =
     say ConsoleLog ''Desert tank plane created''
       ((attach (TankObj (TSLPlaneDesertTank_new (size_params 4 3) out)) s)
          \<lparr>tslDesertTank := Some (length (heap s)),
            document_listeners :=
              addEventListener ''keyup'' (onDocumentKey (length (heap s)))
                (addEventListener ''keydown'' (onDocumentKey (length (heap s)))
                  (document_listeners s))\<rparr>)"
  by (simp add: createDesertTankPlane_def attach_def Let_def construct_def scene_add_mesh_def
      say_def tank_initControls_def)

lemma createRayMarchingPlane_built:
  "renderer s \<noteq> None \<Longrightarrow>
   createRayMarchingPlane (Built out) s =
     (Returned,
      (attach (RayObj (ray_built out)) s)
        \<lparr>raymarchPlane := Some (length (heap s)),
          domElement_listeners :=
            addEventListener ''pointerdown'' (onPointerDown (length (heap s)))
              (addEventListener ''pointermove'' (onPointerMove (length (heap s)))
                (domElement_listeners s))\<rparr>)"
  by (auto simp add: createRayMarchingPlane_def attach_def Let_def construct_def
      scene_add_mesh_def setupMouseInteraction_def modify_def on_ray_def ray_built_def)

lemma obj_live_built [simp]:
  "obj_live (WaveObj (TSLPlane_new w h ws hs))"
  "obj_live (SdfObj (sdf_built out))"
  "obj_live (TankObj (TSLPlaneDesertTank_new ps out))"
  "obj_live (RayObj (ray_built out))"
  by (simp_all add: TSLPlane_new_def sdf_built_def TSLPlaneSDF_new_def TSLPlaneDesertTank_new_def
      ray_built_def TSLPlaneRaymarching_new_def PlaneGeometry_new_def
      sdf_set_fade_def sdf_set_radius_def ray_set_radius_def ray_set_maxSteps_def
      ray_set_surfaceDistance_def ray_set_timeMultiplier_def split: option.splits)

lemma einv_attach: "einv {} s \<Longrightarrow> einv {length (heap s)} (attach ob s)"
  using tracked_create [of "heap s" "scene s" "trace s" ob] by (simp add: einv_def attach_def)

lemma einv_frame [simp]:
  "einv R (s\<lparr>document_listeners := dl\<rparr>) = einv R s"
  "einv R (s\<lparr>domElement_listeners := el\<rparr>) = einv R s"
  "einv R (say l m s) = einv R s"
  by (simp_all add: einv_def say_def)

lemma say_frame [simp]:
  "refs (say l m s) = refs s"
  "renderer (say l m s) = renderer s"
  "heap (say l m s) = heap s"
  "scene (say l m s) = scene s"
  "trace (say l m s) = trace s"
  "currentActivePlane (say l m s) = currentActivePlane s"
  "tslPlane (say l m s) = tslPlane s"
  "tslPlaneSDF (say l m s) = tslPlaneSDF s"
  "tslDesertTank (say l m s) = tslDesertTank s"
  "raymarchPlane (say l m s) = raymarchPlane s"
  "document_listeners (say l m s) = document_listeners s"
  "domElement_listeners (say l m s) = domElement_listeners s"
  "console (say l m s) = console s @ [(l, m)]"
  by (simp_all add: say_def refs_def)

lemma attach_frame [simp]:
  "renderer (attach ob s) = renderer s"
  "tslPlane (attach ob s) = tslPlane s"
  "tslPlaneSDF (attach ob s) = tslPlaneSDF s"
  "tslDesertTank (attach ob s) = tslDesertTank s"
  "raymarchPlane (attach ob s) = raymarchPlane s"
  "heap (attach ob s) = heap s @ [ob]"
  by (simp_all add: attach_def)

lemma consistent_cleanup:
  assumes "consistent s"
  shows "einv {} (cleanupCurrentPlane (say l m s))"
    and "renderer (cleanupCurrentPlane (say l m s)) \<noteq> None"
  using assms cleanup_einv [of "say l m s"] by (simp_all add: consistent_def)

lemma consistent_switchToPlane:
  assumes "consistent s"
  shows "consistent (snd (switchToPlane oc p s))"
proof -
  define q where "q = cleanupCurrentPlane (say ConsoleLog (''Switching to plane: '' @ p) s)"
  have q: "einv {} q" "renderer q \<noteq> None" "refs q = {}"
    using consistent_cleanup [OF assms] by (simp_all add: q_def)
  have slots: "tslPlane q = None" "tslPlaneSDF q = None" "tslDesertTank q = None"
    "raymarchPlane q = None"
    by (simp_all add: q_def)
  have sw: "switchToPlane oc' p s =
     (if p = ''wave'' then switched p (createWavePlane oc' q)
      else if p = ''sdf'' then switched p (createSDFPlane oc' q)
      else if p = ''desert-tank'' then switched p (createDesertTankPlane oc' q)
      else if p = ''raymarching'' then
        (case createRayMarchingPlane oc' q of
           (Thrown, s') \<Rightarrow> (Thrown, s')
         | (Returned, s') \<Rightarrow> switched p s')
      else if p = ''none'' then switched p q
      else (Returned, say ConsoleWarn (''Unknown plane type: '' @ p) q))"
    for oc'
    unfolding switchToPlane_def q_def Let_def ..
  show ?thesis
  proof (cases oc)
    case CtorThrows
    then show ?thesis
      using q slots
      by (simp add: sw switched_def createWavePlane_def
          createSDFPlane_def createDesertTankPlane_def createRayMarchingPlane_def
          consistent_def refs_def occupied_def del: append.simps)
  next
    case (Built out)
    then show ?thesis
      using q slots einv_attach [OF q(1)]
      by (simp add: sw switched_def createWavePlane_built
          createSDFPlane_built createDesertTankPlane_built createRayMarchingPlane_built
          consistent_def refs_def occupied_def del: append.simps)
  qed
qed

lemma shader_uniform_set_disposed [simp]:
  "material_disposed (shader_uniform_set n v m) = material_disposed m"
  by (simp add: shader_uniform_set_def split: option.splits)

lemma obj_live_on_tank_keyMap [simp]:
  "obj_live (on_tank (\<lambda>p. p\<lparr>tank_keyMap := g p\<rparr>) x) = obj_live x"
  by (cases x) (simp_all add: on_tank_def)

lemma obj_live_on_ray_rayTo [simp]:
  "obj_live (on_ray (ray_set_rayTo v) x) = obj_live x"
  by (cases x) (simp_all add: on_ray_def ray_set_rayTo_def split: option.splits)

lemma obj_live_on_ray_rayFrom [simp]:
  "obj_live (on_ray (\<lambda>p. ray_set_rayFrom (g p) p) x) = obj_live x"
  by (cases x) (simp_all add: on_ray_def ray_set_rayFrom_def split: option.splits)

lemma consistent_modify:
  assumes "\<And>x. obj_live (f x) = obj_live x"
  shows "consistent (modify i f s) = consistent s"
proof -
  have "obj_live ((heap s)[i := f (heap s ! i)] ! j) = obj_live (heap s ! j)"
    if "j < length (heap s)" for j
    using that assms by (cases "i = j") simp_all
  then show ?thesis
    by (simp add: consistent_def einv_def tracked_def modify_def refs_def occupied_def)
qed

lemma consistent_run_listener: "consistent (run_listener e f s) = consistent s"
  by (cases "(e, f, s)" rule: run_listener.cases) (simp_all add: consistent_modify)

lemma consistent_dispatch: "consistent s \<Longrightarrow> consistent (dispatch e ls s)"
  unfolding dispatch_def
  by (induction ls arbitrary: s) (simp_all add: consistent_run_listener split: prod.splits)

lemma resize_frame [simp]:
  "heap (resize vw vh s) = heap s"
  "scene (resize vw vh s) = scene s"
  "trace (resize vw vh s) = trace s"
  "tslPlane (resize vw vh s) = tslPlane s"
  "tslPlaneSDF (resize vw vh s) = tslPlaneSDF s"
  "tslDesertTank (resize vw vh s) = tslDesertTank s"
  "raymarchPlane (resize vw vh s) = raymarchPlane s"
  "currentActivePlane (resize vw vh s) = currentActivePlane s"
  "document_listeners (resize vw vh s) = document_listeners s"
  "domElement_listeners (resize vw vh s) = domElement_listeners s"
  "console (resize vw vh s) = console s"
  "(renderer (resize vw vh s) = None) = (renderer s = None)"
  by (simp_all add: resize_def split: option.splits)

lemma consistent_resize: "consistent s \<Longrightarrow> consistent (resize vw vh s)"
  by (simp add: consistent_def einv_def refs_def occupied_def)

lemma consistent_exec: "consistent s \<Longrightarrow> consistent (exec c s)"
  by (cases c) (simp_all add: consistent_switchToPlane consistent_resize consistent_dispatch)

lemma consistent_run: "consistent s \<Longrightarrow> consistent (run cmds s)"
  unfolding run_def by (induction cmds arbitrary: s) (simp_all add: consistent_exec)

lemma boot_facts:
  assumes "boot b = Some s"
  shows "renderer s \<noteq> None" "heap s = []" "scene s = [GridHelper]" "trace s = []"
    "tslPlane s = None" "tslPlaneSDF s = None" "tslDesertTank s = None" "raymarchPlane s = None"
    "currentActivePlane s = ''none''" "document_listeners s = []" "domElement_listeners s = []"
  using assms
  by (auto simp add: boot_def initGrid_def initThree_defs split: if_splits)

lemma consistent_boot: "boot b = Some s \<Longrightarrow> consistent s"
  using boot_facts [of b s]
  by (simp add: consistent_def einv_def tracked_def refs_def monitor_def occupied_def)

lemma consistent_live: "consistent s \<Longrightarrow> length (live_planes s) \<le> 1"
proof -
  assume c: "consistent s"
  then have "occupied s \<le> 1" by (simp add: consistent_def)
  then obtain k where k: "refs s \<subseteq> {k}"
    by (cases "tslPlane s"; cases "tslPlaneSDF s"; cases "tslDesertTank s";
        cases "raymarchPlane s") (auto simp: occupied_def refs_def)
  from c have "\<forall>i<length (heap s). obj_live (heap s ! i) \<longrightarrow> i \<in> refs s"
    by (simp add: consistent_def einv_def tracked_def)
  with k have "\<forall>i<length (heap s). obj_live (heap s ! i) \<longrightarrow> i = k" by blast
  then show ?thesis unfolding live_planes_def by (rule at_most_one)
qed

lemma consistent_trace: "consistent s \<Longrightarrow> teardown_precedes_construction (trace s)"
  by (auto simp: consistent_def einv_def tracked_def teardown_precedes_construction_def monitor_def)

lemma cleanup_one:
  assumes "occupied s \<le> 1" "refs s = {a}" "a < length (heap s)"
  shows "trace (cleanupCurrentPlane s) = trace s @ [SceneRemove a, Dispose a]"
    and "heap (cleanupCurrentPlane s) = (heap s)[a := dispose_obj (heap s ! a)]"
    and "scene (cleanupCurrentPlane s) = remove1 (PlaneMesh a) (scene s)"
  using assms
  by (cases "tslPlane s"; cases "tslPlaneSDF s"; cases "tslDesertTank s";
      cases "raymarchPlane s";
      simp add: occupied_def refs_def cleanupCurrentPlane_def Let_def)+

lemma cleanup_none:
  assumes "refs s = {}"
  shows "cleanupCurrentPlane s = s"
  using assms by (simp add: refs_def cleanupCurrentPlane_def Let_def)

lemma consistent_ref_valid: "consistent s \<Longrightarrow> a \<in> refs s \<Longrightarrow> a < length (heap s)"
  by (simp add: consistent_def einv_def tracked_def)

lemma switch_trace:
  assumes "consistent s" "refs s = {a}"
    and "p \<in> {''wave'', ''sdf'', ''desert-tank'', ''raymarching''}"
  shows "trace (snd (switchToPlane (Built out) p s)) =
           trace s @ [SceneRemove a, Dispose a, Construct (length (heap s)),
             SceneAdd (length (heap s))]"
proof -
  define q where "q = cleanupCurrentPlane (say ConsoleLog (''Switching to plane: '' @ p) s)"
  have a: "a < length (heap s)" using assms consistent_ref_valid by blast
  have o: "occupied (say ConsoleLog (''Switching to plane: '' @ p) s) \<le> 1"
    using assms(1) by (simp add: consistent_def occupied_def)
  have t: "trace q = trace s @ [SceneRemove a, Dispose a]"
    unfolding q_def using cleanup_one(1) [OF o, of a] assms(2) a by simp
  have r: "renderer q \<noteq> None" using assms(1) by (simp add: q_def consistent_def)
  have l: "length (heap q) = length (heap s)" by (simp add: q_def)
  have sw: "switchToPlane oc' p s =
     (if p = ''wave'' then switched p (createWavePlane oc' q)
      else if p = ''sdf'' then switched p (createSDFPlane oc' q)
      else if p = ''desert-tank'' then switched p (createDesertTankPlane oc' q)
      else if p = ''raymarching'' then
        (case createRayMarchingPlane oc' q of
           (Thrown, s') \<Rightarrow> (Thrown, s')
         | (Returned, s') \<Rightarrow> switched p s')
      else if p = ''none'' then switched p q
      else (Returned, say ConsoleWarn (''Unknown plane type: '' @ p) q))"
    for oc'
    unfolding switchToPlane_def q_def Let_def ..
  show ?thesis
    using assms(3) t r l
    by (auto simp add: sw switched_def createWavePlane_built createSDFPlane_built
        createDesertTankPlane_built createRayMarchingPlane_built attach_def
        simp del: append.simps)
qed

lemma boot_chrome: "boot chrome = Some chrome_engine"
  by (simp add: boot_def initGrid_def initThree_defs chrome_def chrome_engine_def js_div_def)

lemmas lifecycle_defs =
  run_def switchToPlane_def switched_def cleanupCurrentPlane_def dispose_at_def
  scene_remove_mesh_def scene_add_mesh_def construct_def modify_def say_def
  createWavePlane_def createSDFPlane_def createDesertTankPlane_def createRayMarchingPlane_def
  setupMouseInteraction_def tank_initControls_def addEventListener_def removeEventListener_def
  on_sdf_def on_tank_def on_ray_def Let_def

lemma sdf_refs: "refs (run [SelectVariant (Built TslOk) ''sdf''] chrome_engine) = {0}"
  by (simp add: lifecycle_defs chrome_engine_def refs_def)

section \<open>Exclusive ownership\<close>

text \<open>
  C1. In every state reached from a started engine by any sequence of variant selections
  (whatever their constructors do), resizes and input events, at most one plane object holds
  live GPU resources. The history of operations is accepted by the monitor: whenever a
  plane is constructed, no earlier plane is still undisposed or still attached to the
  scene. In particular a switch away from the active plane \<open>a\<close> to a plane variant whose
  constructor returns appends exactly: scene removal of \<open>a\<close>, dispose of \<open>a\<close>, construction
  of the new plane, its attachment.
\<close>

theorem exclusive_ownership:
  assumes "boot b = Some s0"
  shows "length (live_planes (run cmds s0)) \<le> 1 \<and>
         teardown_precedes_construction (trace (run cmds s0)) \<and>
         (\<forall>a p out. refs (run cmds s0) = {a} \<and>
            p \<in> {''wave'', ''sdf'', ''desert-tank'', ''raymarching''} \<longrightarrow>
            trace (snd (switchToPlane (Built out) p (run cmds s0))) =
              trace (run cmds s0) @
                [SceneRemove a, Dispose a, Construct (length (heap (run cmds s0))),
                 SceneAdd (length (heap (run cmds s0)))])"
proof -
  have c: "consistent (run cmds s0)"
    using assms by (intro consistent_run consistent_boot)
  have "length (live_planes (run cmds s0)) \<le> 1"
    using c by (rule consistent_live)
  moreover have "teardown_precedes_construction (trace (run cmds s0))"
    using c by (rule consistent_trace)
  moreover have "trace (snd (switchToPlane (Built out) p (run cmds s0))) =
      trace (run cmds s0) @
        [SceneRemove a, Dispose a, Construct (length (heap (run cmds s0))),
         SceneAdd (length (heap (run cmds s0)))]"
    if "refs (run cmds s0) = {a}"
      and "p \<in> {''wave'', ''sdf'', ''desert-tank'', ''raymarching''}" for a p out
    using c that by (rule switch_trace)
  ultimately show ?thesis by blast
qed

theorem exclusive_ownership_witness:
  "boot chrome = Some chrome_engine \<and>
   length (live_planes (run [SelectVariant (Built TslOk) ''sdf''] chrome_engine)) \<le> 1 \<and>
   teardown_precedes_construction
     [Construct 0, SceneAdd 0, SceneRemove 0, Dispose 0, Construct 1, SceneAdd 1] \<and>
   refs (run [SelectVariant (Built TslOk) ''sdf''] chrome_engine) = {0} \<and>
   trace (snd (switchToPlane (Built TslOk) ''raymarching''
       (run [SelectVariant (Built TslOk) ''sdf''] chrome_engine))) =
     [Construct 0, SceneAdd 0, SceneRemove 0, Dispose 0, Construct 1, SceneAdd 1]"
proof -
  let ?s = "run [SelectVariant (Built TslOk) ''sdf''] chrome_engine"
  have t: "trace ?s = [Construct 0, SceneAdd 0]" "length (heap ?s) = 1"
    by (simp_all add: lifecycle_defs chrome_engine_def)
  have m: "teardown_precedes_construction
     [Construct 0, SceneAdd 0, SceneRemove 0, Dispose 0, Construct 1, SceneAdd 1]"
    by (simp add: teardown_precedes_construction_def)
  from exclusive_ownership [OF boot_chrome, of "[SelectVariant (Built TslOk) ''sdf'']"]
  have "length (live_planes ?s) \<le> 1"
    and "\<forall>a p out. refs ?s = {a} \<and>
            p \<in> {''wave'', ''sdf'', ''desert-tank'', ''raymarching''} \<longrightarrow>
            trace (snd (switchToPlane (Built out) p ?s)) =
              trace ?s @ [SceneRemove a, Dispose a, Construct (length (heap ?s)),
                 SceneAdd (length (heap ?s))]"
    by blast+
  then have "length (live_planes ?s) \<le> 1"
    and "trace (snd (switchToPlane (Built TslOk) ''raymarching'' ?s)) =
       trace ?s @ [SceneRemove 0, Dispose 0, Construct (length (heap ?s)),
         SceneAdd (length (heap ?s))]"
    using sdf_refs by simp_all
  then show ?thesis using boot_chrome sdf_refs m t by simp
qed

section \<open>Lifecycle: the states after a switch\<close>

lemma switchToPlane_via:
  assumes "q = cleanupCurrentPlane (say ConsoleLog (''Switching to plane: '' @ p) s)"
  shows "switchToPlane oc p s =
     (if p = ''wave'' then switched p (createWavePlane oc q)
      else if p = ''sdf'' then switched p (createSDFPlane oc q)
      else if p = ''desert-tank'' then switched p (createDesertTankPlane oc q)
      else if p = ''raymarching'' then
        (case createRayMarchingPlane oc q of
           (Thrown, s') \<Rightarrow> (Thrown, s')
         | (Returned, s') \<Rightarrow> switched p s')
      else if p = ''none'' then switched p q
      else (Returned, say ConsoleWarn (''Unknown plane type: '' @ p) q))"
  unfolding switchToPlane_def assms Let_def ..

lemma cleaned:
  assumes "consistent s" and "q = cleanupCurrentPlane (say l m s)"
  shows "einv {} q" "renderer q \<noteq> None" "refs q = {}"
    "tslPlane q = None" "tslPlaneSDF q = None" "tslDesertTank q = None" "raymarchPlane q = None"
    "length (heap q) = length (heap s)" "console q = console s @ [(l, m)]"
    "currentActivePlane q = currentActivePlane s"
  using assms consistent_cleanup [of s l m] by simp_all

lemma consistent_idle:
  assumes "einv {} s"
  shows "live_planes s = []" and "\<forall>i. PlaneMesh i \<notin> set (scene s)"
proof -
  have "\<forall>i<length (heap s). \<not> obj_live (heap s ! i)"
    using assms by (simp add: einv_def tracked_def)
  then have "\<forall>x\<in>set (heap s). \<not> obj_live x" by (auto simp: in_set_conv_nth)
  then show "live_planes s = []" by (simp add: live_planes_def filter_empty_conv)
  show "\<forall>i. PlaneMesh i \<notin> set (scene s)"
    using assms by (simp add: einv_def tracked_def)
qed

lemma live_planes_frame [simp]:
  "live_planes (say l m s) = live_planes s"
  "live_planes (s\<lparr>currentActivePlane := p\<rparr>) = live_planes s"
  by (simp_all add: live_planes_def)

lemma switch_built_state:
  assumes "renderer q \<noteq> None"
    and "q = cleanupCurrentPlane (say ConsoleLog (''Switching to plane: '' @ p) s)"
    and "p \<in> {''wave'', ''sdf'', ''desert-tank'', ''raymarching''}"
    and "s' = snd (switchToPlane (Built out) p s)"
  shows "fst (switchToPlane (Built out) p s) = Returned"
    and "currentActivePlane s' = p"
    and "heap s' = heap q @ [built_obj p out]"
    and "trace s' = trace q @ [Construct (length (heap q)), SceneAdd (length (heap q))]"
    and "refs s' = {length (heap q)}"
proof -
  note sw = switchToPlane_via [OF assms(2)]
  have slots: "tslPlane q = None" "tslPlaneSDF q = None" "tslDesertTank q = None"
    "raymarchPlane q = None"
    by (simp_all add: assms(2))
  consider "p = ''wave''" | "p = ''sdf''" | "p = ''desert-tank''" | "p = ''raymarching''"
    using assms(3) by blast
  then have "fst (switchToPlane (Built out) p s) = Returned \<and>
    currentActivePlane s' = p \<and> heap s' = heap q @ [built_obj p out] \<and>
    trace s' = trace q @ [Construct (length (heap q)), SceneAdd (length (heap q))] \<and>
    refs s' = {length (heap q)}"
  proof cases
    case 1
    then show ?thesis
      using sw [of "Built out"] assms(4)
      by (simp add: switched_def createWavePlane_built built_obj_def attach_def
          refs_def slots del: append.simps)
  next
    case 2
    then show ?thesis
      using sw [of "Built out"] assms(4)
      by (simp add: switched_def createSDFPlane_built built_obj_def attach_def
          refs_def slots del: append.simps)
  next
    case 3
    then show ?thesis
      using sw [of "Built out"] assms(4)
      by (simp add: switched_def createDesertTankPlane_built built_obj_def
          attach_def refs_def slots del: append.simps)
  next
    case 4
    then show ?thesis
      using sw [of "Built out"] assms(4) assms(1)
      by (simp add: switched_def createRayMarchingPlane_built built_obj_def
          attach_def refs_def slots del: append.simps)
  qed
  then show "fst (switchToPlane (Built out) p s) = Returned"
    and "currentActivePlane s' = p"
    and "heap s' = heap q @ [built_obj p out]"
    and "trace s' = trace q @ [Construct (length (heap q)), SceneAdd (length (heap q))]"
    and "refs s' = {length (heap q)}"
    by simp_all
qed

lemma obj_live_built_obj [simp]: "obj_live (built_obj p out)"
  by (simp add: built_obj_def del: obj_live.simps)

lemma switch_built:
  assumes "consistent s" and "p \<in> {''wave'', ''sdf'', ''desert-tank'', ''raymarching''}"
  shows "fst (switchToPlane (Built out) p s) = Returned"
    and "currentActivePlane (snd (switchToPlane (Built out) p s)) = p"
    and "refs (snd (switchToPlane (Built out) p s)) = {length (heap s)}"
    and "length (heap (snd (switchToPlane (Built out) p s))) = length (heap s) + 1"
    and "heap (snd (switchToPlane (Built out) p s)) ! length (heap s) = built_obj p out"
proof -
  define q where "q = cleanupCurrentPlane (say ConsoleLog (''Switching to plane: '' @ p) s)"
  note c = cleaned [OF assms(1) q_def]
  note b = switch_built_state [OF c(2) q_def assms(2) refl, of out]
  show "fst (switchToPlane (Built out) p s) = Returned" by (rule b(1))
  show "currentActivePlane (snd (switchToPlane (Built out) p s)) = p" by (rule b(2))
  show "refs (snd (switchToPlane (Built out) p s)) = {length (heap s)}"
    using b(5) c(8) by simp
  show "length (heap (snd (switchToPlane (Built out) p s))) = length (heap s) + 1"
    using b(3) c(8) by simp
  show "heap (snd (switchToPlane (Built out) p s)) ! length (heap s) = built_obj p out"
    using b(3) c(8) by (metis nth_append_length)
qed

lemma consistent_exactly_one:
  assumes "consistent s" "refs s = {a}" "obj_live (heap s ! a)"
  shows "length (live_planes s) = 1"
proof -
  have "a < length (heap s)" using assms consistent_ref_valid by blast
  then have "heap s ! a \<in> set (filter obj_live (heap s))" using assms(3) by simp
  then have "0 < length (live_planes s)"
    unfolding live_planes_def by (metis length_pos_if_in_set)
  moreover have "length (live_planes s) \<le> 1" using assms(1) by (rule consistent_live)
  ultimately show ?thesis by (cases "live_planes s") simp_all
qed

lemma consistent_dead:
  assumes "consistent s" "i < length (heap s)" "i \<notin> refs s"
  shows "\<not> obj_live (heap s ! i)"
  using assms by (auto simp: consistent_def einv_def tracked_def)

lemma switch_none_idle:
  assumes "refs s = {}"
  shows "snd (switchToPlane oc ''none'' s) =
     say ConsoleLog ''Successfully switched to: none''
       ((say ConsoleLog ''Switching to plane: none'' s)\<lparr>currentActivePlane := ''none''\<rparr>)"
proof -
  have "refs (say ConsoleLog (''Switching to plane: '' @ ''none'') s) = {}"
    using assms by simp
  then have "cleanupCurrentPlane (say ConsoleLog (''Switching to plane: '' @ ''none'') s) =
      say ConsoleLog (''Switching to plane: '' @ ''none'') s"
    by (rule cleanup_none)
  then show ?thesis
    using switchToPlane_via [OF refl, of oc "''none''" s] by (simp add: switched_def)
qed

lemma switch_none_refs:
  "refs (snd (switchToPlane oc ''none'' s)) = {}"
  using switchToPlane_via [OF refl, of oc "''none''" s]
  by (simp add: switched_def refs_def del: append.simps)

section \<open>Switching to the variant that is already active\<close>

text \<open>
  C2 (as amended). \<^verbatim>\<open>switchToPlane\<close> does not compare the requested tag with the active
  one. For a plane variant \<open>X\<close> whose constructor returns, a second selection of \<open>X\<close>
  ends with the same tag and with exactly one live plane, as the first does, but it is not
  a no-op: it removes the first call's plane from the scene, disposes it, constructs a new
  plane with the next identity and attaches it. Only for \<^verbatim>\<open>"none"\<close> does a repeated
  selection change nothing but the console.
\<close>

theorem repeated_select_rebuilds:
  assumes "boot b = Some s0"
    and "X \<in> {''wave'', ''sdf'', ''desert-tank'', ''raymarching''}"
    and "s = run cmds s0"
    and "s1 = snd (switchToPlane (Built outA) X s)"
    and "s2 = snd (switchToPlane (Built outB) X s1)"
    and "t1 = snd (switchToPlane ocA ''none'' s)"
    and "t2 = snd (switchToPlane ocB ''none'' t1)"
  shows "currentActivePlane s1 = X \<and> currentActivePlane s2 = X \<and>
         refs s1 = {length (heap s)} \<and> refs s2 = {length (heap s) + 1} \<and>
         length (live_planes s1) = 1 \<and> length (live_planes s2) = 1 \<and>
         length (heap s2) = length (heap s1) + 1 \<and>
         obj_live (heap s1 ! length (heap s)) \<and> \<not> obj_live (heap s2 ! length (heap s)) \<and>
         trace s2 =
           trace s1 @
             [SceneRemove (length (heap s)), Dispose (length (heap s)),
              Construct (length (heap s) + 1), SceneAdd (length (heap s) + 1)] \<and>
         t2 = say ConsoleLog ''Successfully switched to: none''
                (say ConsoleLog ''Switching to plane: none'' t1)"
proof -
  have c: "consistent s"
    unfolding assms(3) using assms(1) by (intro consistent_run consistent_boot)
  have c1: "consistent s1"
    unfolding assms(4) using c by (rule consistent_switchToPlane)
  have c2: "consistent s2"
    unfolding assms(5) using c1 by (rule consistent_switchToPlane)
  note b1 = switch_built [OF c assms(2), of outA, folded assms(4)]
  have l1: "length (heap s1) = length (heap s) + 1" by (rule b1(4))
  note b2 = switch_built [OF c1 assms(2), of outB, folded assms(5), unfolded l1]
  have live1: "obj_live (heap s1 ! length (heap s))" using b1(5) by simp
  have live2: "obj_live (heap s2 ! (length (heap s) + 1))" using b2(5) by simp
  have n1: "length (live_planes s1) = 1"
    using c1 b1(3) live1 by (rule consistent_exactly_one)
  have n2: "length (live_planes s2) = 1"
    using c2 b2(3) live2 by (rule consistent_exactly_one)
  have dead: "\<not> obj_live (heap s2 ! length (heap s))"
    using c2 b2(3) b2(4) by (intro consistent_dead) simp_all
  have tr: "trace s2 =
      trace s1 @ [SceneRemove (length (heap s)), Dispose (length (heap s)),
        Construct (length (heap s) + 1), SceneAdd (length (heap s) + 1)]"
    using switch_trace [OF c1 b1(3) assms(2), of outB] l1 by (simp add: assms(5))
  have "refs t1 = {}" unfolding assms(6) by (rule switch_none_refs)
  then have "t2 = say ConsoleLog ''Successfully switched to: none''
      ((say ConsoleLog ''Switching to plane: none'' t1)\<lparr>currentActivePlane := ''none''\<rparr>)"
    unfolding assms(7) by (rule switch_none_idle)
  moreover have "currentActivePlane t1 = ''none''"
    using switchToPlane_via [OF refl, of ocA "''none''" s]
    by (simp add: assms(6) switched_def del: append.simps)
  ultimately have t: "t2 = say ConsoleLog ''Successfully switched to: none''
      (say ConsoleLog ''Switching to plane: none'' t1)"
    by (simp add: say_def)
  show ?thesis
    using b1(2,3) b2(2,3,4) n1 n2 live1 dead tr t l1 by simp
qed

theorem repeated_select_rebuilds_witness:
  "boot chrome = Some chrome_engine \<and>
   ''sdf'' \<in> {''wave'', ''sdf'', ''desert-tank'', ''raymarching''} \<and>
   currentActivePlane
     (run [SelectVariant (Built TslOk) ''sdf'', SelectVariant (Built TslOk) ''sdf'']
        chrome_engine) = ''sdf'' \<and>
   refs (run [SelectVariant (Built TslOk) ''sdf'', SelectVariant (Built TslOk) ''sdf'']
        chrome_engine) = {1} \<and>
   length (live_planes
     (run [SelectVariant (Built TslOk) ''sdf'', SelectVariant (Built TslOk) ''sdf'']
        chrome_engine)) = 1 \<and>
   trace (run [SelectVariant (Built TslOk) ''sdf'', SelectVariant (Built TslOk) ''sdf'']
        chrome_engine) =
     [Construct 0, SceneAdd 0, SceneRemove 0, Dispose 0, Construct 1, SceneAdd 1]"
proof -
  let ?s1 = "snd (switchToPlane (Built TslOk) ''sdf'' (run [] chrome_engine))"
  let ?s2 = "snd (switchToPlane (Built TslOk) ''sdf'' ?s1)"
  have r: "run [SelectVariant (Built TslOk) ''sdf'', SelectVariant (Built TslOk) ''sdf'']
      chrome_engine = ?s2"
    by (simp add: run_def)
  have e: "length (heap (run [] chrome_engine)) = 0" "trace ?s1 = [Construct 0, SceneAdd 0]"
    by (simp_all add: lifecycle_defs chrome_engine_def)
  have m: "''sdf'' \<in> {''wave'', ''sdf'', ''desert-tank'', ''raymarching''}" by simp
  from repeated_select_rebuilds [where cmds = "[]" and outA = TslOk and outB = TslOk
      and ocA = CtorThrows and ocB = CtorThrows, OF boot_chrome m refl refl refl refl refl]
  have "currentActivePlane ?s2 = ''sdf''" and "refs ?s2 = {1}"
    and "length (live_planes ?s2) = 1"
    and "trace ?s2 = [Construct 0, SceneAdd 0, SceneRemove 0, Dispose 0, Construct 1, SceneAdd 1]"
    using e by simp_all
  then show ?thesis using boot_chrome r by simp
qed

text \<open>
  The claim as stated fails: after the second selection the active plane is another
  object, one more object was allocated, and the first was torn down.
\<close>

theorem repeated_select_counterexample:
  "tslPlaneSDF (run [SelectVariant (Built TslOk) ''sdf''] chrome_engine) = Some 0 \<and>
   tslPlaneSDF
     (run [SelectVariant (Built TslOk) ''sdf'', SelectVariant (Built TslOk) ''sdf'']
        chrome_engine) = Some 1 \<and>
   length (heap (run [SelectVariant (Built TslOk) ''sdf''] chrome_engine)) = 1 \<and>
   length (heap
     (run [SelectVariant (Built TslOk) ''sdf'', SelectVariant (Built TslOk) ''sdf'']
        chrome_engine)) = 2 \<and>
   trace (run [SelectVariant (Built TslOk) ''sdf'', SelectVariant (Built TslOk) ''sdf'']
        chrome_engine) =
     trace (run [SelectVariant (Built TslOk) ''sdf''] chrome_engine) @
       [SceneRemove 0, Dispose 0, Construct 1, SceneAdd 1]"
  by (simp add: lifecycle_defs chrome_engine_def)

section \<open>A constructor that throws\<close>

text \<open>
  C3 (as amended). For the wave, SDF and desert-tank variants the create function catches
  the constructor's exception and reports it with \<^verbatim>\<open>console.error\<close>; \<^verbatim>\<open>switchToPlane\<close>
  returns normally, no plane is referenced, alive or attached to the scene, and the active
  tag is the requested variant.
\<close>

theorem failed_construction_keeps_tag:
  assumes "boot b = Some s0"
    and "X \<in> {''wave'', ''sdf'', ''desert-tank''}"
    and "s = run cmds s0"
    and "r = switchToPlane CtorThrows X s"
  shows "fst r = Returned \<and> currentActivePlane (snd r) = X \<and>
         refs (snd r) = {} \<and> live_planes (snd r) = [] \<and>
         (\<forall>i. PlaneMesh i \<notin> set (scene (snd r))) \<and>
         console (snd r) =
           console s @
             [(ConsoleLog, ''Switching to plane: '' @ X),
              (ConsoleError, failure_message X),
              (ConsoleLog, ''Successfully switched to: '' @ X)]"
proof -
  define q where "q = cleanupCurrentPlane (say ConsoleLog (''Switching to plane: '' @ X) s)"
  have c: "consistent s"
    unfolding assms(3) using assms(1) by (intro consistent_run consistent_boot)
  note cl = cleaned [OF c q_def]
  note idle = consistent_idle [OF cl(1)]
  have sw: "r = switched X (say ConsoleError (failure_message X) q)"
    using assms(2) switchToPlane_via [OF q_def, of CtorThrows]
    by (auto simp add: assms(4) createWavePlane_def createSDFPlane_def
        createDesertTankPlane_def failure_message_def simp del: append.simps)
  show ?thesis
    using cl idle by (simp add: sw switched_def refs_def del: append.simps)
qed

theorem failed_construction_keeps_tag_witness:
  "boot chrome = Some chrome_engine \<and> ''sdf'' \<in> {''wave'', ''sdf'', ''desert-tank''} \<and>
   fst (switchToPlane CtorThrows ''sdf''
     (run [SelectVariant (Built TslOk) ''raymarching''] chrome_engine)) = Returned \<and>
   currentActivePlane (snd (switchToPlane CtorThrows ''sdf''
     (run [SelectVariant (Built TslOk) ''raymarching''] chrome_engine))) = ''sdf'' \<and>
   live_planes (snd (switchToPlane CtorThrows ''sdf''
     (run [SelectVariant (Built TslOk) ''raymarching''] chrome_engine))) = []"
proof -
  have m: "''sdf'' \<in> {''wave'', ''sdf'', ''desert-tank''}" by simp
  from failed_construction_keeps_tag
      [where cmds = "[SelectVariant (Built TslOk) ''raymarching'']",
       OF boot_chrome m refl refl]
  show ?thesis using boot_chrome by simp
qed

text \<open>The claim as stated fails: the tag after a failed construction is not \<^verbatim>\<open>"none"\<close>.\<close>

theorem failed_construction_counterexample:
  "currentActivePlane (snd (switchToPlane CtorThrows ''sdf''
     (run [SelectVariant (Built TslOk) ''raymarching''] chrome_engine))) \<noteq> ''none''"
  by (simp add: lifecycle_defs chrome_engine_def)

text \<open>
  \<^verbatim>\<open>createRayMarchingPlane\<close> has no \<^verbatim>\<open>try\<close>: the exception leaves \<^verbatim>\<open>switchToPlane\<close> after the
  teardown and before the tag is assigned.
\<close>

lemma raymarching_construction_throws:
  assumes "boot b = Some s0" and "s = run cmds s0"
    and "r = switchToPlane CtorThrows ''raymarching'' s"
  shows "fst r = Thrown \<and> currentActivePlane (snd r) = currentActivePlane s \<and>
         refs (snd r) = {}"
proof -
  define q where
    "q = cleanupCurrentPlane (say ConsoleLog (''Switching to plane: '' @ ''raymarching'') s)"
  have c: "consistent s"
    unfolding assms(2) using assms(1) by (intro consistent_run consistent_boot)
  note cl = cleaned [OF c q_def]
  have "r = (Thrown, q)"
    using switchToPlane_via [OF q_def, of CtorThrows]
    by (simp add: assms(3) createRayMarchingPlane_def del: append.simps)
  then show ?thesis using cl by simp
qed

section \<open>An unknown tag\<close>

text \<open>
  C4 (as amended). The teardown runs before the tag is examined. For a tag outside the
  five known ones \<^verbatim>\<open>switchToPlane\<close> warns, returns and leaves the active tag as it was,
  but the plane that was active has been removed from the scene and disposed: no plane is
  referenced, alive or attached afterwards.
\<close>

theorem unknown_tag_tears_down:
  assumes "boot b = Some s0"
    and "p \<notin> {''wave'', ''sdf'', ''desert-tank'', ''raymarching'', ''none''}"
    and "s = run cmds s0"
    and "r = switchToPlane oc p s"
  shows "fst r = Returned \<and> currentActivePlane (snd r) = currentActivePlane s \<and>
         console (snd r) =
           console s @
             [(ConsoleLog, ''Switching to plane: '' @ p),
              (ConsoleWarn, ''Unknown plane type: '' @ p)] \<and>
         refs (snd r) = {} \<and> live_planes (snd r) = [] \<and>
         (\<forall>i. PlaneMesh i \<notin> set (scene (snd r))) \<and>
         (\<forall>a. refs s = {a} \<longrightarrow> trace (snd r) = trace s @ [SceneRemove a, Dispose a])"
proof -
  define q where "q = cleanupCurrentPlane (say ConsoleLog (''Switching to plane: '' @ p) s)"
  have c: "consistent s"
    unfolding assms(3) using assms(1) by (intro consistent_run consistent_boot)
  note cl = cleaned [OF c q_def]
  note idle = consistent_idle [OF cl(1)]
  have sw: "r = (Returned, say ConsoleWarn (''Unknown plane type: '' @ p) q)"
    using assms(2) switchToPlane_via [OF q_def, of oc]
    by (simp add: assms(4) del: append.simps)
  have "trace q = trace s @ [SceneRemove a, Dispose a]" if "refs s = {a}" for a
  proof -
    have a: "a < length (heap s)" using c that consistent_ref_valid by blast
    have o: "occupied (say ConsoleLog (''Switching to plane: '' @ p) s) \<le> 1"
      using c by (simp add: consistent_def occupied_def)
    show ?thesis
      unfolding q_def using cleanup_one(1) [OF o, of a] that a by simp
  qed
  then show ?thesis
    using cl idle by (simp add: sw del: append.simps)
qed

theorem unknown_tag_tears_down_witness:
  "boot chrome = Some chrome_engine \<and>
   ''bogus'' \<notin> {''wave'', ''sdf'', ''desert-tank'', ''raymarching'', ''none''} \<and>
   refs (run [SelectVariant (Built TslOk) ''raymarching''] chrome_engine) = {0} \<and>
   currentActivePlane (snd (switchToPlane CtorThrows ''bogus''
     (run [SelectVariant (Built TslOk) ''raymarching''] chrome_engine))) = ''raymarching'' \<and>
   live_planes (snd (switchToPlane CtorThrows ''bogus''
     (run [SelectVariant (Built TslOk) ''raymarching''] chrome_engine))) = [] \<and>
   trace (snd (switchToPlane CtorThrows ''bogus''
     (run [SelectVariant (Built TslOk) ''raymarching''] chrome_engine))) =
     [Construct 0, SceneAdd 0, SceneRemove 0, Dispose 0]"
proof -
  let ?s = "run [SelectVariant (Built TslOk) ''raymarching''] chrome_engine"
  have m: "''bogus'' \<notin> {''wave'', ''sdf'', ''desert-tank'', ''raymarching'', ''none''}"
    by simp
  have e: "refs ?s = {0}" "currentActivePlane ?s = ''raymarching''"
    "trace ?s = [Construct 0, SceneAdd 0]"
    by (simp_all add: lifecycle_defs chrome_engine_def refs_def)
  from unknown_tag_tears_down
      [where cmds = "[SelectVariant (Built TslOk) ''raymarching'']" and oc = CtorThrows,
       OF boot_chrome m refl refl]
  show ?thesis using boot_chrome e m by simp
qed

text \<open>
  The claim as stated fails: the active raymarching plane does not survive an unknown tag.
\<close>

theorem unknown_tag_counterexample:
  "PlaneMesh 0 \<in> set (scene (run [SelectVariant (Built TslOk) ''raymarching''] chrome_engine)) \<and>
   PlaneMesh 0 \<notin> set (scene (snd (switchToPlane CtorThrows ''bogus''
     (run [SelectVariant (Built TslOk) ''raymarching''] chrome_engine)))) \<and>
   raymarchPlane (run [SelectVariant (Built TslOk) ''raymarching''] chrome_engine) = Some 0 \<and>
   raymarchPlane (snd (switchToPlane CtorThrows ''bogus''
     (run [SelectVariant (Built TslOk) ''raymarching''] chrome_engine))) = None \<and>
   length (live_planes (run [SelectVariant (Built TslOk) ''raymarching''] chrome_engine)) = 1 \<and>
   length (live_planes (snd (switchToPlane CtorThrows ''bogus''
     (run [SelectVariant (Built TslOk) ''raymarching''] chrome_engine)))) = 0"
  by (simp add: lifecycle_defs chrome_engine_def live_planes_def
      TSLPlaneRaymarching_new_def PlaneGeometry_new_def MeshPhysicalNodeMaterial_new_def
      tsl_uniform_def assigned_def ray_set_radius_def ray_set_maxSteps_def
      ray_set_surfaceDistance_def ray_set_timeMultiplier_def ray_dispose_def
      geometry_dispose_def material_dispose_def size_params_def dflt_def)

section \<open>Uniform accessors of the built planes\<close>

lemmas uniform_defs =
  uniform_get_def shader_uniform_get_def shader_uniform_set_def tsl_uniform_def assigned_def
  ShaderMaterial_new_def MeshPhysicalNodeMaterial_new_def PlaneGeometry_new_def
  size_params_def dflt_def

lemma map_of_set_uniform:
  "map_of (map (\<lambda>(k, x). if k = n' then (k, v) else (k, x)) us) n =
     (if n = n' then map_option (\<lambda>_. v) (map_of us n) else map_of us n)"
  by (induction us) auto

lemma shader_get_set_other:
  "n \<noteq> n' \<Longrightarrow>
   shader_uniform_get n d (shader_uniform_set n' v m) = shader_uniform_get n d m"
  by (simp add: shader_uniform_get_def shader_uniform_set_def map_of_set_uniform
      split: option.splits)

lemma shader_get_set_same:
  "uniforms m = Some us \<Longrightarrow> map_of us n = Some x \<Longrightarrow>
   shader_uniform_get n d (shader_uniform_set n v m) = v"
  by (simp add: shader_uniform_get_def shader_uniform_set_def map_of_set_uniform)

lemmas ray_accessor_defs =
  ray_radius_def ray_maxSteps_def ray_surfaceDistance_def ray_timeMultiplier_def
  ray_set_radius_def ray_set_maxSteps_def ray_set_surfaceDistance_def
  ray_set_timeMultiplier_def

lemma ray_get_after_other_set [simp]:
  "ray_radius (ray_set_maxSteps v p) = ray_radius p"
  "ray_radius (ray_set_surfaceDistance v p) = ray_radius p"
  "ray_radius (ray_set_timeMultiplier v p) = ray_radius p"
  "ray_maxSteps (ray_set_radius v p) = ray_maxSteps p"
  "ray_maxSteps (ray_set_surfaceDistance v p) = ray_maxSteps p"
  "ray_maxSteps (ray_set_timeMultiplier v p) = ray_maxSteps p"
  "ray_surfaceDistance (ray_set_radius v p) = ray_surfaceDistance p"
  "ray_surfaceDistance (ray_set_maxSteps v p) = ray_surfaceDistance p"
  "ray_surfaceDistance (ray_set_timeMultiplier v p) = ray_surfaceDistance p"
  "ray_timeMultiplier (ray_set_radius v p) = ray_timeMultiplier p"
  "ray_timeMultiplier (ray_set_maxSteps v p) = ray_timeMultiplier p"
  "ray_timeMultiplier (ray_set_surfaceDistance v p) = ray_timeMultiplier p"
  by (simp_all add: ray_accessor_defs uniform_get_def shader_get_set_other
      split: option.splits)

lemma ray_geometry_after_set [simp]:
  "ray_geometry (ray_set_radius v p) = ray_geometry p"
  "ray_geometry (ray_set_maxSteps v p) = ray_geometry p"
  "ray_geometry (ray_set_surfaceDistance v p) = ray_geometry p"
  "ray_geometry (ray_set_timeMultiplier v p) = ray_geometry p"
  by (simp_all add: ray_accessor_defs split: option.splits)

lemma has_uniform_set [simp]:
  "has_uniform n (shader_uniform_set n' v m) = has_uniform n m"
  by (auto simp add: has_uniform_def shader_uniform_set_def map_of_set_uniform
      split: option.splits)

lemma shader_get_set_has:
  "has_uniform n m \<Longrightarrow> shader_uniform_get n d (shader_uniform_set n v m) = v"
  by (auto simp add: has_uniform_def shader_uniform_get_def shader_uniform_set_def
      map_of_set_uniform split: option.splits)

lemma ray_wired_new: "ray_wired ((TSLPlaneRaymarching_new ps out)\<lparr>ray_camera := True\<rparr>)"
  by (cases out)
    (simp_all add: ray_wired_def TSLPlaneRaymarching_new_def ray_createFallbackMaterial_def
      has_uniform_def tsl_uniform_def assigned_def ShaderMaterial_new_def)

lemma ray_wired_set [simp]:
  "ray_wired (ray_set_radius v p) = ray_wired p"
  "ray_wired (ray_set_maxSteps v p) = ray_wired p"
  "ray_wired (ray_set_surfaceDistance v p) = ray_wired p"
  "ray_wired (ray_set_timeMultiplier v p) = ray_wired p"
  by (auto simp add: ray_wired_def ray_accessor_defs split: option.splits)

lemma ray_get_after_set:
  assumes "ray_wired p"
  shows "ray_radius (ray_set_radius v p) = v"
    and "ray_maxSteps (ray_set_maxSteps v p) = v"
    and "ray_surfaceDistance (ray_set_surfaceDistance v p) = v"
    and "ray_timeMultiplier (ray_set_timeMultiplier v p) = v"
  using assms
  by (auto simp add: ray_wired_def ray_accessor_defs uniform_get_def shader_get_set_has
      split: option.splits)

lemma ray_built_values:
  "ray_radius (ray_built out) = Num 0.2"
  "ray_maxSteps (ray_built out) = Num 25"
  "ray_surfaceDistance (ray_built out) = Num 0.0001"
  "ray_timeMultiplier (ray_built out) = Num 0.5"
  by (simp_all add: ray_built_def ray_get_after_set ray_wired_new)

lemma ray_built_geometry: "ray_geometry (ray_built out) = PlaneGeometry_new 8 8 64 64"
  by (simp add: ray_built_def TSLPlaneRaymarching_new_def size_params_def dflt_def)

lemma ray_new_values:
  "ray_radius (TSLPlaneRaymarching_new ps out) = Num 0.15"
  "ray_maxSteps (TSLPlaneRaymarching_new ps out) = Num 20"
  "ray_surfaceDistance (TSLPlaneRaymarching_new ps out) = Num 0.0001"
  "ray_timeMultiplier (TSLPlaneRaymarching_new ps out) = Num 1"
  by (cases out;
      simp add: TSLPlaneRaymarching_new_def ray_createFallbackMaterial_def
        ray_radius_def ray_maxSteps_def ray_surfaceDistance_def ray_timeMultiplier_def
        uniform_defs)+

lemma sdf_built_values:
  "sdf_radius (sdf_built out) = Num 0.3"
  "sdf_fade (sdf_built out) = Num 2"
  "sdf_geometry (sdf_built out) = PlaneGeometry_new 8 4 64 32"
  by (cases out;
      simp add: sdf_built_def TSLPlaneSDF_new_def sdf_createFallbackMaterial_def
        sdf_radius_def sdf_fade_def sdf_set_radius_def sdf_set_fade_def uniform_defs)+

lemma sdf_new_values:
  "sdf_radius (TSLPlaneSDF_new ps out) = Num 0.25"
  "sdf_fade (TSLPlaneSDF_new ps out) = Num 1.5"
  by (cases out;
      simp add: TSLPlaneSDF_new_def sdf_createFallbackMaterial_def
        sdf_radius_def sdf_fade_def uniform_defs)+

lemma switch_slot:
  assumes "consistent s"
  shows "tslPlaneSDF (snd (switchToPlane (Built out) ''sdf'' s)) = Some (length (heap s))"
    and "tslDesertTank (snd (switchToPlane (Built out) ''desert-tank'' s)) =
           Some (length (heap s))"
    and "raymarchPlane (snd (switchToPlane (Built out) ''raymarching'' s)) =
           Some (length (heap s))"
proof -
  have "tslPlaneSDF (snd (switchToPlane (Built out) p s)) = Some (length (heap s))"
    if "p = ''sdf''" for p
    using cleaned [OF assms refl, of ConsoleLog "''Switching to plane: '' @ p"]
      switchToPlane_via [OF refl, of "Built out" p s] that
    by (simp add: switched_def createSDFPlane_built del: append.simps)
  then show "tslPlaneSDF (snd (switchToPlane (Built out) ''sdf'' s)) = Some (length (heap s))"
    by simp
  have "tslDesertTank (snd (switchToPlane (Built out) p s)) = Some (length (heap s))"
    if "p = ''desert-tank''" for p
    using cleaned [OF assms refl, of ConsoleLog "''Switching to plane: '' @ p"]
      switchToPlane_via [OF refl, of "Built out" p s] that
    by (simp add: switched_def createDesertTankPlane_built del: append.simps)
  then show "tslDesertTank (snd (switchToPlane (Built out) ''desert-tank'' s)) =
      Some (length (heap s))"
    by simp
  have "raymarchPlane (snd (switchToPlane (Built out) p s)) = Some (length (heap s))"
    if "p = ''raymarching''" for p
    using cleaned [OF assms refl, of ConsoleLog "''Switching to plane: '' @ p"]
      switchToPlane_via [OF refl, of "Built out" p s] that
    by (simp add: switched_def createRayMarchingPlane_built del: append.simps)
  then show "raymarchPlane (snd (switchToPlane (Built out) ''raymarching'' s)) =
      Some (length (heap s))"
    by simp
qed

lemmas plane_eval_defs =
  active_sdf_def active_tank_def active_ray_def deref_def as_sdf_def as_tank_def as_ray_def
  TSLPlaneSDF_new_def TSLPlaneDesertTank_new_def TSLPlaneRaymarching_new_def
  uniform_defs

lemma tank_uniform_names:
  "set (map fst (tank_uniforms (TSLPlaneDesertTank_new ps out))) \<subseteq>
     {''wheelOffsetUniform'', ''bulletOffsetUniform'', ''shellOffsetUniform'',
      ''uTime'', ''uWheelOffset'', ''uBulletOffset'', ''uShellOffset''}"
  by (cases out)
    (auto simp add: tank_uniforms_def TSLPlaneDesertTank_new_def tank_createFallbackMaterial_def
      tsl_uniform_def assigned_def ShaderMaterial_new_def MeshPhysicalNodeMaterial_new_def)

lemmas dispatch_defs = dispatch_def event_type_def

section \<open>Activation parameters\<close>

text \<open>
  C6. A started engine has the active tag \<^verbatim>\<open>"none"\<close>. Selecting \<^verbatim>\<open>"raymarching"\<close> (in the
  start state, and in any state reached later) with a constructor that returns makes
  raymarching the active variant, and the plane the engine then refers to reports radius
  0.2, maxSteps 25, surfaceDistance 0.0001 and timeMultiplier 0.5 through its getters,
  whichever way its material was built; as constructed the same getters report 0.15, 20,
  0.0001 and 1.
\<close>

theorem cold_start_raymarching:
  assumes "boot b = Some s0" and "s = run cmds s0"
    and "r = switchToPlane (Built out) ''raymarching'' s"
  shows "currentActivePlane s0 = ''none'' \<and>
         fst r = Returned \<and> currentActivePlane (snd r) = ''raymarching'' \<and>
         map_option ray_radius (active_ray (snd r)) = Some (Num 0.2) \<and>
         map_option ray_maxSteps (active_ray (snd r)) = Some (Num 25) \<and>
         map_option ray_surfaceDistance (active_ray (snd r)) = Some (Num 0.0001) \<and>
         map_option ray_timeMultiplier (active_ray (snd r)) = Some (Num 0.5) \<and>
         ray_radius (TSLPlaneRaymarching_new (size_params 8 8) out) = Num 0.15 \<and>
         ray_maxSteps (TSLPlaneRaymarching_new (size_params 8 8) out) = Num 20 \<and>
         ray_surfaceDistance (TSLPlaneRaymarching_new (size_params 8 8) out) = Num 0.0001 \<and>
         ray_timeMultiplier (TSLPlaneRaymarching_new (size_params 8 8) out) = Num 1"
proof -
  have c: "consistent s"
    unfolding assms(2) using assms(1) by (intro consistent_run consistent_boot)
  have m: "''raymarching'' \<in> {''wave'', ''sdf'', ''desert-tank'', ''raymarching''}" by simp
  note b = switch_built [OF c m, of out, folded assms(3)]
  have slot: "raymarchPlane (snd r) = Some (length (heap s))"
    unfolding assms(3) using c by (rule switch_slot)
  have "active_ray (snd r) = Some (ray_built out)"
    using slot b(4,5) by (simp add: active_ray_def deref_def as_ray_def built_obj_def)
  then show ?thesis
    using b(1,2) boot_facts(9) [OF assms(1)]
    by (simp add: ray_built_values ray_new_values)
qed

theorem cold_start_raymarching_witness:
  "boot chrome = Some chrome_engine \<and> currentActivePlane chrome_engine = ''none'' \<and>
   currentActivePlane
     (snd (switchToPlane (Built TslOk) ''raymarching'' chrome_engine)) = ''raymarching'' \<and>
   map_option ray_radius
     (active_ray (snd (switchToPlane (Built TslOk) ''raymarching'' chrome_engine))) =
     Some (Num 0.2) \<and>
   map_option ray_maxSteps
     (active_ray (snd (switchToPlane (Built TslOk) ''raymarching'' chrome_engine))) =
     Some (Num 25) \<and>
   map_option ray_surfaceDistance
     (active_ray (snd (switchToPlane (Built TslOk) ''raymarching'' chrome_engine))) =
     Some (Num 0.0001) \<and>
   map_option ray_timeMultiplier
     (active_ray (snd (switchToPlane (Built TslOk) ''raymarching'' chrome_engine))) =
     Some (Num 0.5)"
proof -
  have r: "chrome_engine = run [] chrome_engine" by (simp add: run_def)
  from cold_start_raymarching [where cmds = "[]" and out = TslOk, OF boot_chrome r refl]
  show ?thesis using boot_chrome by simp
qed

text \<open>
  C7 (as amended). Selecting \<^verbatim>\<open>"sdf"\<close> with a constructor that returns makes the SDF
  gallery the active variant with a mesh of 8 by 4 units and 64 by 32 segments. Its
  constructor sets radius 0.25 and fade 1.5, and \<^verbatim>\<open>createSDFPlane\<close> overrides them before
  attaching the mesh: the active plane reports radius 0.3 and fade 2.0.
\<close>

theorem sdf_activation_overrides:
  assumes "boot b = Some s0" and "s = run cmds s0"
    and "r = switchToPlane (Built out) ''sdf'' s"
  shows "fst r = Returned \<and> currentActivePlane (snd r) = ''sdf'' \<and>
         map_option sdf_geometry (active_sdf (snd r)) =
           Some \<lparr>width = 8, height = 4, widthSegments = 64, heightSegments = 32,
                 geometry_disposed = False\<rparr> \<and>
         map_option sdf_radius (active_sdf (snd r)) = Some (Num 0.3) \<and>
         map_option sdf_fade (active_sdf (snd r)) = Some (Num 2.0) \<and>
         sdf_radius (TSLPlaneSDF_new (size_params 8 4) out) = Num 0.25 \<and>
         sdf_fade (TSLPlaneSDF_new (size_params 8 4) out) = Num 1.5"
proof -
  have c: "consistent s"
    unfolding assms(2) using assms(1) by (intro consistent_run consistent_boot)
  have m: "''sdf'' \<in> {''wave'', ''sdf'', ''desert-tank'', ''raymarching''}" by simp
  note b = switch_built [OF c m, of out, folded assms(3)]
  have slot: "tslPlaneSDF (snd r) = Some (length (heap s))"
    unfolding assms(3) using c by (rule switch_slot)
  have "active_sdf (snd r) = Some (sdf_built out)"
    using slot b(4,5) by (simp add: active_sdf_def deref_def as_sdf_def built_obj_def)
  then show ?thesis
    using b(1,2) by (simp add: sdf_built_values sdf_new_values PlaneGeometry_new_def)
qed

theorem sdf_activation_overrides_witness:
  "boot chrome = Some chrome_engine \<and>
   map_option sdf_radius
     (active_sdf (snd (switchToPlane (Built TslOk) ''sdf'' chrome_engine))) = Some (Num 0.3) \<and>
   map_option sdf_fade
     (active_sdf (snd (switchToPlane (Built TslOk) ''sdf'' chrome_engine))) = Some (Num 2.0) \<and>
   map_option sdf_geometry
     (active_sdf (snd (switchToPlane (Built TslOk) ''sdf'' chrome_engine))) =
     Some \<lparr>width = 8, height = 4, widthSegments = 64, heightSegments = 32,
           geometry_disposed = False\<rparr>"
proof -
  have r: "chrome_engine = run [] chrome_engine" by (simp add: run_def)
  from sdf_activation_overrides [where cmds = "[]" and out = TslOk, OF boot_chrome r refl]
  show ?thesis using boot_chrome by simp
qed

text \<open>
  The claim as stated fails: after activation the radius is not 0.25 and the fade is not
  1.5.
\<close>

theorem sdf_defaults_counterexample:
  "map_option sdf_radius
     (active_sdf (run [SelectVariant (Built TslOk) ''sdf''] chrome_engine)) \<noteq> Some (Num 0.25) \<and>
   map_option sdf_fade
     (active_sdf (run [SelectVariant (Built TslOk) ''sdf''] chrome_engine)) \<noteq> Some (Num 1.5)"
  by (simp add: lifecycle_defs chrome_engine_def plane_eval_defs sdf_radius_def sdf_fade_def
      sdf_set_radius_def sdf_set_fade_def)

section \<open>Resize\<close>

text \<open>
  C8 (as amended). \<^verbatim>\<open>resize\<close> changes no plane object: the heap and the engine's reference
  to the desert tank are the same before and after, so the tank's wheelOffset,
  bulletOffset and every other uniform keep their values. The desert tank has no
  resolution-dependent uniform: its uniforms are the three game-state nodes and the four
  entries of the fallback table. With a renderer present, \<^verbatim>\<open>resize\<close> sets the camera aspect
  and the renderer's size.
\<close>

theorem resize_leaves_planes:
  "heap (resize vw vh s) = heap s \<and>
   tslDesertTank (resize vw vh s) = tslDesertTank s \<and>
   active_tank (resize vw vh s) = active_tank s \<and>
   map_option tank_wheelOffset (active_tank (resize vw vh s)) =
     map_option tank_wheelOffset (active_tank s) \<and>
   map_option tank_bulletOffset (active_tank (resize vw vh s)) =
     map_option tank_bulletOffset (active_tank s) \<and>
   map_option tank_uniforms (active_tank (resize vw vh s)) =
     map_option tank_uniforms (active_tank s) \<and>
   set (map fst (tank_uniforms (TSLPlaneDesertTank_new ps out))) \<subseteq>
     {''wheelOffsetUniform'', ''bulletOffsetUniform'', ''shellOffsetUniform'',
      ''uTime'', ''uWheelOffset'', ''uBulletOffset'', ''uShellOffset''} \<and>
   (renderer s \<noteq> None \<longrightarrow>
      camera_aspect (resize vw vh s) = Some (js_div vw vh) \<and>
      map_option renderer_size (renderer (resize vw vh s)) = Some (Some (vw, vh)))"
proof -
  have a: "active_tank (resize vw vh s) = active_tank s"
    by (simp add: active_tank_def deref_def split: option.splits)
  have r: "renderer s \<noteq> None \<longrightarrow>
      camera_aspect (resize vw vh s) = Some (js_div vw vh) \<and>
      map_option renderer_size (renderer (resize vw vh s)) = Some (Some (vw, vh))"
    by (auto simp add: resize_def)
  show ?thesis using a r tank_uniform_names [of ps out] by simp
qed

theorem resize_leaves_planes_witness:
  "renderer (run [SelectVariant (Built TslOk) ''desert-tank''] chrome_engine) \<noteq> None \<and>
   camera_aspect (resize 800 600
     (run [SelectVariant (Built TslOk) ''desert-tank''] chrome_engine)) =
     Some (Finite (800 / 600)) \<and>
   map_option renderer_size (renderer (resize 800 600
     (run [SelectVariant (Built TslOk) ''desert-tank''] chrome_engine))) =
     Some (Some (800, 600)) \<and>
   map_option tank_wheelOffset (active_tank (resize 800 600
     (run [SelectVariant (Built TslOk) ''desert-tank''] chrome_engine))) =
     Some (Vec2 (- 10) 0) \<and>
   map_option tank_bulletOffset (active_tank (resize 800 600
     (run [SelectVariant (Built TslOk) ''desert-tank''] chrome_engine))) = Some (Num 20)"
proof -
  let ?s = "run [SelectVariant (Built TslOk) ''desert-tank''] chrome_engine"
  have e: "renderer ?s \<noteq> None"
    "map_option tank_wheelOffset (active_tank ?s) = Some (Vec2 (- 10) 0)"
    "map_option tank_bulletOffset (active_tank ?s) = Some (Num 20)"
    by (simp_all add: lifecycle_defs chrome_engine_def plane_eval_defs tank_wheelOffset_def
        tank_bulletOffset_def)
  from resize_leaves_planes [of 800 600 ?s] e
  show ?thesis by (simp add: js_div_def)
qed

text \<open>
  The claim as stated fails: after \<^verbatim>\<open>resize(800, 600)\<close> with the desert tank active, these
  are all the uniforms of the tank, and none holds (800, 600).
\<close>

theorem resize_counterexample:
  "map_option tank_uniforms
     (active_tank (run [SelectVariant (Built TslOk) ''desert-tank'', Resize 800 600]
        chrome_engine)) =
     Some [(''wheelOffsetUniform'', Vec2 (- 10) 0), (''bulletOffsetUniform'', Num 20),
           (''shellOffsetUniform'', Num 25)]"
  by (simp add: lifecycle_defs chrome_engine_def plane_eval_defs tank_uniforms_def resize_def)

section \<open>Listeners after disposal\<close>

text \<open>
  C9 (the code at the failing input). After the desert tank and then the raymarching plane
  were active and the scene was cleared, no plane is referenced or alive, yet the tank's
  key listeners are still registered on the document and the raymarching plane's pointer
  listeners on the canvas: \<^verbatim>\<open>TSLPlaneDesertTank.dispose\<close> passes \<^verbatim>\<open>this.initControls\<close> to
  \<^verbatim>\<open>removeEventListener\<close>, not the closure that was registered, and
  \<^verbatim>\<open>TSLPlaneRaymarching.dispose\<close> removes nothing. A key press then writes the disposed
  tank's key map and a pointer move writes the disposed plane's \<^verbatim>\<open>rayTo\<close>.
\<close>

theorem listeners_survive_dispose:
  "refs tank_then_ray_then_none = {} \<and> live_planes tank_then_ray_then_none = [] \<and>
   document_listeners tank_then_ray_then_none =
     [(''keydown'', onDocumentKey 0), (''keyup'', onDocumentKey 0)] \<and>
   domElement_listeners tank_then_ray_then_none =
     [(''pointermove'', onPointerMove 1), (''pointerdown'', onPointerDown 1)] \<and>
   Option.bind (as_tank (heap tank_then_ray_then_none ! 0)) (tank_key ''KeyA'') = None \<and>
   Option.bind (as_tank (heap (exec (Keyboard True ''KeyA'') tank_then_ray_then_none) ! 0))
     (tank_key ''KeyA'') = Some True \<and>
   map_option ray_rayTo (as_ray (heap tank_then_ray_then_none ! 1)) = Some (Vec2 1 1) \<and>
   map_option ray_rayTo
     (as_ray (heap (exec (PointerMove (Hit (Some (0.25, 0.75)))) tank_then_ray_then_none) ! 1)) =
     Some (Vec2 0.25 0.75)"
  by (simp add: tank_then_ray_then_none_def lifecycle_defs chrome_engine_def plane_eval_defs
      dispatch_defs refs_def live_planes_def tank_key_def ray_rayTo_def ray_set_rayTo_def
      ray_set_radius_def ray_set_maxSteps_def ray_set_surfaceDistance_def
      ray_set_timeMultiplier_def tank_dispose_def ray_dispose_def geometry_dispose_def
      material_dispose_def)

end
